theory Spec2Isabelle
  imports Complex_Main "HOL-Library.Sublist" "HOL-Library.AList"
begin

section \<open>Python values, exceptions and results\<close>

text \<open>
  The values that travel through the wrappers: \<^verbatim>\<open>None\<close>, booleans, numbers, strings,
  lists and dictionaries. The dictionaries of this program are keyed by strings
  (\<^verbatim>\<open>Dict[str, Any]\<close> in the annotations, JSON objects on the wire); a dictionary is an
  association list, read through the set of its keys.
\<close>

datatype pyval =
    PNone
  | PBool bool
  | PInt int
  | PFloat real
  | PStr string
  | PList "pyval list"
  | PDict "(string \<times> pyval) list"

text \<open>The exceptions that the libraries and the interpreter raise.\<close>

datatype exn =
    TimeoutError
  | SelectorError
  | TargetClosedError
  | NetworkError
  | JSONDecodeError
  | TypeError
  | ValidationError

text \<open>A computation either returns a value or raises.\<close>

datatype 'a res = Ret 'a | Raise exn

text \<open>Truth value of a Python object, as \<^verbatim>\<open>if x\<close>, \<^verbatim>\<open>not x\<close> and \<^verbatim>\<open>x or y\<close> read it.\<close>

fun truthy :: "pyval \<Rightarrow> bool" where
  "truthy PNone = False"
| "truthy (PBool b) = b"
| "truthy (PInt i) = (i \<noteq> 0)"
| "truthy (PFloat r) = (r \<noteq> 0)"
| "truthy (PStr s) = (s \<noteq> [])"
| "truthy (PList xs) = (xs \<noteq> [])"
| "truthy (PDict kvs) = (kvs \<noteq> [])"

definition py_or :: "pyval \<Rightarrow> pyval \<Rightarrow> pyval" where
  "py_or a b = (if truthy a then a else b)"

text \<open>\<^verbatim>\<open>isinstance(x, dict)\<close>.\<close>

fun isinstance_dict :: "pyval \<Rightarrow> bool" where
  "isinstance_dict (PDict kvs) = True"
| "isinstance_dict v = False"

text \<open>
  \<^verbatim>\<open>field in container\<close> for a string \<^verbatim>\<open>field\<close>: key membership in a dictionary,
  element membership in a list, substring test in a string, and a \<^verbatim>\<open>TypeError\<close> for a
  value that is not iterable.
\<close>

fun py_in :: "string \<Rightarrow> pyval \<Rightarrow> bool res" where
  "py_in k (PDict kvs) = Ret (k \<in> fst ` set kvs)"
| "py_in k (PList xs) = Ret (PStr k \<in> set xs)"
| "py_in k (PStr s) = Ret (sublist k s)"
| "py_in k PNone = Raise TypeError"
| "py_in k (PBool b) = Raise TypeError"
| "py_in k (PInt i) = Raise TypeError"
| "py_in k (PFloat r) = Raise TypeError"

text \<open>
  \<^verbatim>\<open>all(field in response_data for field in required_fields)\<close>: the generator is
  consumed from the left, the first false test ends it, and an exception of a test
  leaves through \<^verbatim>\<open>all\<close>.
\<close>

fun all_fields_in :: "string list \<Rightarrow> pyval \<Rightarrow> bool res" where
  "all_fields_in [] d = Ret True"
| "all_fields_in (f # fs) d =
     (case py_in f d of
        Raise e \<Rightarrow> Raise e
      | Ret b \<Rightarrow> if b then all_fields_in fs d else Ret False)"

section \<open>The response validators of WeatherAPIClient\<close>

definition weather_required_fields :: "string list" where
  "weather_required_fields =
     [''coord'', ''weather'', ''main'', ''wind'', ''clouds'', ''dt'', ''sys'', ''id'', ''name'']"

definition forecast_required_fields :: "string list" where
  "forecast_required_fields = [''cod'', ''message'', ''cnt'', ''list'', ''city'']"

definition validate_weather_response :: "pyval \<Rightarrow> bool res" where
  "validate_weather_response response_data =
     (if \<not> isinstance_dict response_data then Ret False
      else all_fields_in weather_required_fields response_data)"

definition validate_forecast_response :: "pyval \<Rightarrow> bool res" where
  "validate_forecast_response response_data =
     (if \<not> isinstance_dict response_data then Ret False
      else all_fields_in forecast_required_fields response_data)"

section \<open>Settings and the settings singleton\<close>

text \<open>
  \<^verbatim>\<open>Settings\<close> is populated by the settings library from two sources: the environment
  variables and the \<^verbatim>\<open>.env\<close> file. Names are matched without regard to case by the
  library and are taken here in lower case; a value is what the library reads there,
  already coerced to a string, a boolean or an integer. An environment variable wins
  over an entry of the file, and of two entries of the file with one name the later
  wins. Environment variables that name no field are ignored; an
  entry of the file that names no field is rejected by the library.
\<close>

datatype cfgval = CStr string | CBool bool | CInt int

record env =
  environ :: "string \<Rightarrow> cfgval option"
  dotenv :: "(string \<times> cfgval) list"

definition lookup_source :: "env \<Rightarrow> string \<Rightarrow> cfgval option" where
  "lookup_source e name =
     (case environ e name of
        Some v \<Rightarrow> Some v
      | None \<Rightarrow> map_of (rev (dotenv e)) name)"

record Settings =
  environment :: string
  debug :: bool
  openweather_api_key :: string
  openweather_base_url :: string
  browser_name :: string
  headless :: bool
  browser_timeout :: int
  test_timeout :: int
  retry_count :: int
  ui_base_url :: string
  screenshot_mode :: string
  video_mode :: string
  allure_results_dir :: string
  html_report_dir :: string
  performance_threshold_ms :: int

text \<open>
  One field of the class: \<^verbatim>\<open>Field(default=d)\<close> is \<open>Some d\<close>, the required
  \<^verbatim>\<open>Field(...)\<close> is \<open>None\<close>. A missing required value and a value of the wrong type
  fail validation.
\<close>

definition str_field :: "env \<Rightarrow> string \<Rightarrow> string option \<Rightarrow> string res" where
  "str_field e name dflt =
     (case lookup_source e name of
        None \<Rightarrow> (case dflt of None \<Rightarrow> Raise ValidationError | Some d \<Rightarrow> Ret d)
      | Some (CStr v) \<Rightarrow> Ret v
      | Some _ \<Rightarrow> Raise ValidationError)"

definition bool_field :: "env \<Rightarrow> string \<Rightarrow> bool option \<Rightarrow> bool res" where
  "bool_field e name dflt =
     (case lookup_source e name of
        None \<Rightarrow> (case dflt of None \<Rightarrow> Raise ValidationError | Some d \<Rightarrow> Ret d)
      | Some (CBool v) \<Rightarrow> Ret v
      | Some _ \<Rightarrow> Raise ValidationError)"

definition int_field :: "env \<Rightarrow> string \<Rightarrow> int option \<Rightarrow> int res" where
  "int_field e name dflt =
     (case lookup_source e name of
        None \<Rightarrow> (case dflt of None \<Rightarrow> Raise ValidationError | Some d \<Rightarrow> Ret d)
      | Some (CInt v) \<Rightarrow> Ret v
      | Some _ \<Rightarrow> Raise ValidationError)"

definition bind_res :: "'a res \<Rightarrow> ('a \<Rightarrow> 'b res) \<Rightarrow> 'b res" where
  "bind_res m f = (case m of Raise e \<Rightarrow> Raise e | Ret x \<Rightarrow> f x)"

definition field_names :: "string list" where
  "field_names =
     [''environment'', ''debug'', ''openweather_api_key'', ''openweather_base_url'',
      ''browser_name'', ''headless'', ''browser_timeout'', ''test_timeout'', ''retry_count'',
      ''ui_base_url'', ''screenshot_mode'', ''video_mode'', ''allure_results_dir'',
      ''html_report_dir'', ''performance_threshold_ms'']"

definition dotenv_extras :: "env \<Rightarrow> string list" where
  "dotenv_extras e = filter (\<lambda>k. k \<notin> set field_names) (map fst (dotenv e))"

text \<open>The constructor \<^verbatim>\<open>Settings()\<close>.\<close>

definition Settings_init :: "env \<Rightarrow> Settings res" where
  "Settings_init e =
     (if dotenv_extras e \<noteq> [] then Raise ValidationError else
     bind_res (str_field e ''environment'' (Some ''test'')) (\<lambda>v1.
     bind_res (bool_field e ''debug'' (Some False)) (\<lambda>v2.
     bind_res (str_field e ''openweather_api_key'' None) (\<lambda>v3.
     bind_res (str_field e ''openweather_base_url''
                 (Some ''https://api.openweathermap.org/data/2.5'')) (\<lambda>v4.
     bind_res (str_field e ''browser_name'' (Some ''chromium'')) (\<lambda>v5.
     bind_res (bool_field e ''headless'' (Some True)) (\<lambda>v6.
     bind_res (int_field e ''browser_timeout'' (Some 30000)) (\<lambda>v7.
     bind_res (int_field e ''test_timeout'' (Some 30)) (\<lambda>v8.
     bind_res (int_field e ''retry_count'' (Some 2)) (\<lambda>v9.
     bind_res (str_field e ''ui_base_url'' (Some ''https://openweathermap.org'')) (\<lambda>v10.
     bind_res (str_field e ''screenshot_mode'' (Some ''only-on-failure'')) (\<lambda>v11.
     bind_res (str_field e ''video_mode'' (Some ''retain-on-failure'')) (\<lambda>v12.
     bind_res (str_field e ''allure_results_dir'' (Some ''reports/allure-results'')) (\<lambda>v13.
     bind_res (str_field e ''html_report_dir'' (Some ''reports/html'')) (\<lambda>v14.
     bind_res (int_field e ''performance_threshold_ms'' (Some 2000)) (\<lambda>v15.
     Ret \<lparr>environment = v1, debug = v2, openweather_api_key = v3,
          openweather_base_url = v4, browser_name = v5, headless = v6,
          browser_timeout = v7, test_timeout = v8, retry_count = v9, ui_base_url = v10,
          screenshot_mode = v11, video_mode = v12, allure_results_dir = v13,
          html_report_dir = v14, performance_threshold_ms = v15\<rparr>))))))))))))))))"

text \<open>
  An object is its identity together with its fields. The module state holds the
  global \<^verbatim>\<open>_settings\<close> and the number of \<^verbatim>\<open>Settings\<close> objects constructed so far, which
  names the next object.
\<close>

type_synonym settings_obj = "nat \<times> Settings"

record module_state =
  g_settings :: "settings_obj option"
  constructed :: nat

definition fresh_module :: module_state where
  "fresh_module = \<lparr>g_settings = None, constructed = 0\<rparr>"

definition get_settings :: "env \<Rightarrow> module_state \<Rightarrow> settings_obj res \<times> module_state" where
  "get_settings e st =
     (case g_settings st of
        None \<Rightarrow>
          (case Settings_init e of
             Raise x \<Rightarrow> (Raise x, st)
           | Ret s \<Rightarrow>
               (Ret (constructed st, s),
                st\<lparr>g_settings := Some (constructed st, s),
                   constructed := constructed st + 1\<rparr>))
      | Some ob \<Rightarrow> (Ret ob, st))"

text \<open>
  A sequence of calls in one process; the sources may differ from call to call.
\<close>

fun get_settings_calls ::
  "env list \<Rightarrow> module_state \<Rightarrow> settings_obj res list \<times> module_state" where
  "get_settings_calls [] st = ([], st)"
| "get_settings_calls (e # es) st =
     (case get_settings e st of
        (r, st1) \<Rightarrow> (case get_settings_calls es st1 of (rs, st2) \<Rightarrow> (r # rs, st2)))"

subsection \<open>The head of the tests that need the key\<close>

text \<open>
  The six tests of \<^verbatim>\<open>tests/api/test_weather_api_working.py\<close> start alike:
  \<^verbatim>\<open>settings = get_settings()\<close>, then \<^verbatim>\<open>pytest.skip\<close> when the key is falsy. What
  follows the guard (the request and the assertions on it) is not modelled.
\<close>

datatype test_outcome = Skipped string | Errored exn | Proceeds Settings

definition test_get_weather_valid_city :: "env \<Rightarrow> module_state \<Rightarrow> test_outcome \<times> module_state" where
  "test_get_weather_valid_city e st =
     (case get_settings e st of
        (Raise x, st1) \<Rightarrow> (Errored x, st1)
      | (Ret ob, st1) \<Rightarrow>
          if \<not> truthy (PStr (openweather_api_key (snd ob)))
          then (Skipped ''OpenWeatherMap API key not provided'', st1)
          else (Proceeds (snd ob), st1))"

text \<open>
  Three environments: one without any key, one with an empty key, and one with a key;
  none has a \<^verbatim>\<open>.env\<close> file.
\<close>

definition env_no_key :: env where
  "env_no_key = \<lparr>environ = (\<lambda>name. None), dotenv = []\<rparr>"

definition env_empty_key :: env where
  "env_empty_key =
     \<lparr>environ = (\<lambda>name. if name = ''openweather_api_key'' then Some (CStr []) else None),
      dotenv = []\<rparr>"

definition env_with_key :: env where
  "env_with_key =
     \<lparr>environ =
        (\<lambda>name. if name = ''openweather_api_key'' then Some (CStr ''0123456789abcdef'')
                 else None),
      dotenv = []\<rparr>"

text \<open>Whether \<^verbatim>\<open>Settings()\<close> succeeds on the sources.\<close>

definition constructs :: "env \<Rightarrow> bool" where
  "constructs e = (case Settings_init e of Ret s \<Rightarrow> True | Raise x \<Rightarrow> False)"

section \<open>The API client\<close>

text \<open>
  The response of the HTTP library: \<^verbatim>\<open>status\<close>, \<^verbatim>\<open>ok\<close> (the library's reading of the
  status as a success), \<^verbatim>\<open>headers\<close>, and what \<^verbatim>\<open>json()\<close> and \<^verbatim>\<open>text()\<close> answer, each
  of which may raise.
\<close>

record response =
  status :: int
  ok :: bool
  headers :: "(string \<times> string) list"
  json :: "pyval res"
  text_of :: "string res"

record WeatherAPIClient =
  request_context :: "string \<Rightarrow> (string \<times> pyval) list \<Rightarrow> response res"
  client_settings :: Settings
  base_url :: string
  api_key :: string

definition WeatherAPIClient_init ::
  "(string \<Rightarrow> (string \<times> pyval) list \<Rightarrow> response res) \<Rightarrow> env \<Rightarrow> module_state
     \<Rightarrow> WeatherAPIClient res \<times> module_state" where
  "WeatherAPIClient_init rc e st =
     (case get_settings e st of
        (Raise x, st1) \<Rightarrow> (Raise x, st1)
      | (Ret ob, st1) \<Rightarrow>
          (Ret \<lparr>request_context = rc, client_settings = snd ob,
                base_url = openweather_base_url (snd ob),
                api_key = openweather_api_key (snd ob)\<rparr>, st1))"














section \<open>The browser page and the page objects\<close>

text \<open>
  A locator is made from a selector by \<^verbatim>\<open>page.locator(selector)\<close>, and \<^verbatim>\<open>.first\<close>
  narrows it to the first match.
\<close>

datatype locator = Loc string | First string

fun first_of :: "locator \<Rightarrow> locator" where
  "first_of (Loc s) = First s"
| "first_of (First s) = First s"

text \<open>
  The page of the browser library, as far as the page objects use it: for each call, what
  the library answers during the run under study (\<open>None\<close> where a call returns nothing
  and does not raise). The answer to a call depends on its arguments only.
\<close>

record Page =
  locator_result :: "string \<Rightarrow> exn option"
  is_visible_result :: "locator \<Rightarrow> int \<Rightarrow> bool res"
  text_content_result :: "locator \<Rightarrow> string option res"
  fill_result :: "locator \<Rightarrow> string \<Rightarrow> exn option"
  press_result :: "locator \<Rightarrow> string \<Rightarrow> exn option"
  goto_result :: "string \<Rightarrow> exn option"
  wait_for_load_state_result :: "string \<Rightarrow> exn option"

text \<open>Every call into the library is recorded, in order, with its arguments.\<close>

datatype event =
    EvLocator string
  | EvIsVisible locator int
  | EvTextContent locator
  | EvFill locator string
  | EvPress locator string
  | EvGoto string
  | EvWaitForLoadState string

text \<open>
  A method of a page object runs on the calls made so far, returns or raises, and
  leaves the calls made so far extended by its own.
\<close>

type_synonym 'a io = "event list \<Rightarrow> 'a res \<times> event list"

definition ret :: "'a \<Rightarrow> 'a io" where
  "ret x = (\<lambda>tr. (Ret x, tr))"

definition bind :: "'a io \<Rightarrow> ('a \<Rightarrow> 'b io) \<Rightarrow> 'b io" where
  "bind m f = (\<lambda>tr. case m tr of (Ret x, tr1) \<Rightarrow> f x tr1 | (Raise e, tr1) \<Rightarrow> (Raise e, tr1))"

text \<open>\<^verbatim>\<open>try: m except: h\<close> with a bare \<^verbatim>\<open>except\<close>, which catches every exception.\<close>

definition try_except :: "'a io \<Rightarrow> 'a io \<Rightarrow> 'a io" where
  "try_except m h = (\<lambda>tr. case m tr of (Ret x, tr1) \<Rightarrow> (Ret x, tr1) | (Raise e, tr1) \<Rightarrow> h tr1)"

definition call :: "event \<Rightarrow> 'a res \<Rightarrow> 'a io" where
  "call ev r = (\<lambda>tr. (r, tr @ [ev]))"

definition unit_result :: "exn option \<Rightarrow> unit res" where
  "unit_result x = (case x of None \<Rightarrow> Ret () | Some e \<Rightarrow> Raise e)"

definition page_locator :: "Page \<Rightarrow> string \<Rightarrow> locator io" where
  "page_locator pg selector =
     call (EvLocator selector)
       (case locator_result pg selector of None \<Rightarrow> Ret (Loc selector) | Some e \<Rightarrow> Raise e)"

definition is_visible_call :: "Page \<Rightarrow> locator \<Rightarrow> int \<Rightarrow> bool io" where
  "is_visible_call pg el timeout = call (EvIsVisible el timeout) (is_visible_result pg el timeout)"

definition text_content :: "Page \<Rightarrow> locator \<Rightarrow> string option io" where
  "text_content pg el = call (EvTextContent el) (text_content_result pg el)"

definition fill :: "Page \<Rightarrow> locator \<Rightarrow> string \<Rightarrow> unit io" where
  "fill pg el v = call (EvFill el v) (unit_result (fill_result pg el v))"

definition press :: "Page \<Rightarrow> locator \<Rightarrow> string \<Rightarrow> unit io" where
  "press pg el k = call (EvPress el k) (unit_result (press_result pg el k))"

definition goto :: "Page \<Rightarrow> string \<Rightarrow> unit io" where
  "goto pg url = call (EvGoto url) (unit_result (goto_result pg url))"

definition wait_for_load_state :: "Page \<Rightarrow> string \<Rightarrow> unit io" where
  "wait_for_load_state pg state = call (EvWaitForLoadState state) (unit_result (wait_for_load_state_result pg state))"

subsection \<open>BasePage\<close>

text \<open>The logger of the page objects writes messages only and is left out.\<close>

record BasePage =
  page :: Page
  settings :: Settings

definition BasePage_init :: "Page \<Rightarrow> env \<Rightarrow> module_state \<Rightarrow> BasePage res \<times> module_state" where
  "BasePage_init pg e st =
     (case get_settings e st of
        (Raise x, st1) \<Rightarrow> (Raise x, st1)
      | (Ret ob, st1) \<Rightarrow> (Ret \<lparr>page = pg, settings = snd ob\<rparr>, st1))"

definition navigate_to :: "BasePage \<Rightarrow> string \<Rightarrow> unit io" where
  "navigate_to self url = goto (page self) url"

definition wait_for_page_load :: "BasePage \<Rightarrow> unit io" where
  "wait_for_page_load self = wait_for_load_state (page self) ''networkidle''"

text \<open>The argument \<^verbatim>\<open>locator: str | Locator\<close>.\<close>

datatype locator_arg = ArgStr string | ArgLocator locator

definition element_of :: "BasePage \<Rightarrow> locator_arg \<Rightarrow> locator io" where
  "element_of self a =
     (case a of ArgStr s \<Rightarrow> page_locator (page self) s | ArgLocator l \<Rightarrow> ret l)"

definition py_of_text :: "string option \<Rightarrow> pyval" where
  "py_of_text t = (case t of None \<Rightarrow> PNone | Some s \<Rightarrow> PStr s)"

definition get_text :: "BasePage \<Rightarrow> locator_arg \<Rightarrow> pyval io" where
  "get_text self a =
     bind (element_of self a) (\<lambda>element.
     bind (text_content (page self) element) (\<lambda>t.
     ret (py_or (py_of_text t) (PStr []))))"

subsection \<open>WeatherPage\<close>

definition SEARCH_INPUT :: string where
  "SEARCH_INPUT = ''[data-testid='search-input'], input[placeholder*='city'], #search_str''"

definition SEARCH_BUTTON :: string where
  "SEARCH_BUTTON = ''[data-testid='search-button'], button[type='submit'], .search-btn''"

definition WEATHER_INFO :: string where
  "WEATHER_INFO = ''[data-testid='weather-info'], .weather-widget, .current-weather''"

definition TEMPERATURE :: string where
  "TEMPERATURE = ''[data-testid='temperature'], .temperature, .heading''"

definition CITY_NAME :: string where
  "CITY_NAME = ''[data-testid='city-name'], .city-name, h2''"

definition WEATHER_DESCRIPTION :: string where
  "WEATHER_DESCRIPTION = ''[data-testid='description'], .weather-description''"

definition ERROR_MESSAGE :: string where
  "ERROR_MESSAGE = ''[data-testid='error'], .error, .alert''"

definition search_selectors :: "string list" where
  "search_selectors =
     [SEARCH_INPUT, ''input[name='q']'', ''input[id*='search']'', ''input[placeholder*='Search']'']"

definition temperature_selectors :: "string list" where
  "temperature_selectors = [TEMPERATURE, ''.temperature'', ''.temp'', ''[class*='temperature']'']"

definition city_selectors :: "string list" where
  "city_selectors = [CITY_NAME, ''h1'', ''h2'', ''.city'', ''[class*='city']'']"

definition description_selectors :: "string list" where
  "description_selectors =
     [WEATHER_DESCRIPTION, ''.description'', ''.weather-desc'', ''[class*='description']'']"

definition weather_selectors :: "string list" where
  "weather_selectors = [WEATHER_INFO, ''.weather'', ''.current-weather'', ''[class*='weather']'']"

definition error_selectors :: "string list" where
  "error_selectors = [ERROR_MESSAGE, ''.error'', ''.alert-danger'', ''[class*='error']'']"

text \<open>
  What one pass through the body of a \<^verbatim>\<open>for\<close> loop does: it leaves the method with a
  value, or it goes on to the next element.
\<close>

datatype 'a ctl = Return 'a | Continue

text \<open>
  The body of the loops of the getters. The whole body is inside the \<^verbatim>\<open>try\<close>, the
  \<^verbatim>\<open>return await element.text_content()\<close> included.
\<close>

definition probe_text :: "Page \<Rightarrow> int \<Rightarrow> string \<Rightarrow> string option ctl io" where
  "probe_text pg timeout selector =
     try_except
       (bind (page_locator pg selector) (\<lambda>l.
        bind (is_visible_call pg (first_of l) timeout) (\<lambda>v.
        if v then bind (text_content pg (first_of l)) (\<lambda>t. ret (Return t))
        else ret Continue)))
       (ret Continue)"

text \<open>The body of the loops of the two checks, which return \<^verbatim>\<open>True\<close>.\<close>

definition probe_flag :: "Page \<Rightarrow> int \<Rightarrow> string \<Rightarrow> bool ctl io" where
  "probe_flag pg timeout selector =
     try_except
       (bind (page_locator pg selector) (\<lambda>l.
        bind (is_visible_call pg (first_of l) timeout) (\<lambda>v.
        if v then ret (Return True) else ret Continue)))
       (ret Continue)"

text \<open>
  \<^verbatim>\<open>for selector in selectors: body\<close> followed by \<^verbatim>\<open>return dflt\<close>.
\<close>

fun for_each :: "(string \<Rightarrow> 'a ctl io) \<Rightarrow> string list \<Rightarrow> 'a \<Rightarrow> 'a io" where
  "for_each body [] dflt = ret dflt"
| "for_each body (selector # rest) dflt =
     bind (body selector) (\<lambda>c. case c of Return v \<Rightarrow> ret v | Continue \<Rightarrow> for_each body rest dflt)"

definition get_temperature :: "BasePage \<Rightarrow> string option io" where
  "get_temperature self = for_each (probe_text (page self) 5000) temperature_selectors None"

definition get_city_name :: "BasePage \<Rightarrow> string option io" where
  "get_city_name self = for_each (probe_text (page self) 5000) city_selectors None"

definition get_weather_description :: "BasePage \<Rightarrow> string option io" where
  "get_weather_description self =
     for_each (probe_text (page self) 5000) description_selectors None"

definition is_weather_info_displayed :: "BasePage \<Rightarrow> bool io" where
  "is_weather_info_displayed self =
     for_each (probe_flag (page self) 10000) weather_selectors False"

definition is_error_displayed :: "BasePage \<Rightarrow> bool io" where
  "is_error_displayed self = for_each (probe_flag (page self) 5000) error_selectors False"

definition get_error_message :: "BasePage \<Rightarrow> string option io" where
  "get_error_message self =
     bind (is_error_displayed self) (\<lambda>shown.
       if shown then for_each (probe_text (page self) 5000) error_selectors None
       else ret None)"

text \<open>
  The loop of \<^verbatim>\<open>search_for_city\<close>. The variable \<^verbatim>\<open>search_input\<close> is assigned before
  the visibility test: it keeps the locator when the test answers \<^verbatim>\<open>False\<close> and when the
  test raises, and keeps its former value only when making the locator raises.
\<close>

fun search_loop :: "Page \<Rightarrow> string list \<Rightarrow> locator option \<Rightarrow> locator option io" where
  "search_loop pg [] search_input tr = (Ret search_input, tr)"
| "search_loop pg (selector # rest) search_input tr =
     (case page_locator pg selector tr of
        (Raise e, tr1) \<Rightarrow> search_loop pg rest search_input tr1
      | (Ret l, tr1) \<Rightarrow>
          (case is_visible_call pg (first_of l) 5000 tr1 of
             (Raise e, tr2) \<Rightarrow> search_loop pg rest (Some (first_of l)) tr2
           | (Ret v, tr2) \<Rightarrow>
               if v then (Ret (Some (first_of l)), tr2)
               else search_loop pg rest (Some (first_of l)) tr2))"

text \<open>
  \<^verbatim>\<open>if search_input:\<close> tests the variable for truth: \<^verbatim>\<open>None\<close> is false, and a locator
  object of the library, which defines neither \<^verbatim>\<open>__bool__\<close> nor \<^verbatim>\<open>__len__\<close>, is true.
\<close>

definition search_for_city :: "BasePage \<Rightarrow> string \<Rightarrow> unit io" where
  "search_for_city self city_name =
     bind (search_loop (page self) search_selectors None) (\<lambda>search_input.
     bind (case search_input of
             Some el \<Rightarrow>
               bind (fill (page self) el city_name) (\<lambda>u. press (page self) el ''Enter'')
           | None \<Rightarrow> navigate_to self (ui_base_url (settings self) @ ''/find?q='' @ city_name))
       (\<lambda>u. wait_for_page_load self))"

subsection \<open>Readings of a page and of a record of calls\<close>

text \<open>
  A candidate selector resolves to a visible element when its locator is made and the
  visibility test on its first match answers \<^verbatim>\<open>True\<close>.
\<close>

definition resolves_visible :: "Page \<Rightarrow> int \<Rightarrow> string \<Rightarrow> bool" where
  "resolves_visible pg timeout selector \<longleftrightarrow>
     locator_result pg selector = None
     \<and> is_visible_result pg (First selector) timeout = Ret True"

text \<open>
  A candidate can be read when it resolves to a visible element and reading the text of
  that element returns; \<open>read_text\<close> is the text then read.
\<close>

definition readable :: "Page \<Rightarrow> int \<Rightarrow> string \<Rightarrow> bool" where
  "readable pg timeout selector \<longleftrightarrow>
     resolves_visible pg timeout selector
     \<and> (case text_content_result pg (First selector) of Ret x \<Rightarrow> True | Raise e \<Rightarrow> False)"

definition read_text :: "Page \<Rightarrow> string \<Rightarrow> string option" where
  "read_text pg selector =
     (case text_content_result pg (First selector) of Ret x \<Rightarrow> x | Raise e \<Rightarrow> None)"

text \<open>The candidates of a list up to and including the first one that satisfies \<open>P\<close>.\<close>

fun upto_first :: "(string \<Rightarrow> bool) \<Rightarrow> string list \<Rightarrow> string list" where
  "upto_first P [] = []"
| "upto_first P (c # cs) = (if P c then [c] else c # upto_first P cs)"

text \<open>The candidates that were tried, in order, and the timeouts that were passed.\<close>

fun tried :: "event list \<Rightarrow> string list" where
  "tried [] = []"
| "tried (EvLocator s # evs) = s # tried evs"
| "tried (ev # evs) = tried evs"

fun visibility_timeouts :: "event list \<Rightarrow> int list" where
  "visibility_timeouts [] = []"
| "visibility_timeouts (EvIsVisible l t # evs) = t # visibility_timeouts evs"
| "visibility_timeouts (ev # evs) = visibility_timeouts evs"

fun navigations :: "event list \<Rightarrow> string list" where
  "navigations [] = []"
| "navigations (EvGoto url # evs) = url # navigations evs"
| "navigations (ev # evs) = navigations evs"

section \<open>Concrete settings and pages\<close>

text \<open>
  The settings that the defaults and a key give, and four pages: one whose first
  temperature candidate is visible but cannot be read, one where the second candidate of
  every list is the visible one, one whose selectors are all rejected as malformed by the
  visibility test, and one where nothing is visible and nothing can be filled.
\<close>

definition default_settings :: Settings where
  "default_settings =
     \<lparr>environment = ''test'', debug = False, openweather_api_key = ''0123456789abcdef'',
      openweather_base_url = ''https://api.openweathermap.org/data/2.5'',
      browser_name = ''chromium'', headless = True, browser_timeout = 30000,
      test_timeout = 30, retry_count = 2, ui_base_url = ''https://openweathermap.org'',
      screenshot_mode = ''only-on-failure'', video_mode = ''retain-on-failure'',
      allure_results_dir = ''reports/allure-results'', html_report_dir = ''reports/html'',
      performance_threshold_ms = 2000\<rparr>"

definition page_text_fails :: Page where
  "page_text_fails =
     \<lparr>locator_result = (\<lambda>s. None),
      is_visible_result = (\<lambda>l t. Ret True),
      text_content_result =
        (\<lambda>l. if l = First TEMPERATURE then Raise TimeoutError else Ret (Some ''21'')),
      fill_result = (\<lambda>l v. None),
      press_result = (\<lambda>l k. None),
      goto_result = (\<lambda>u. None),
      wait_for_load_state_result = (\<lambda>s. None)\<rparr>"

definition page_second_candidate :: Page where
  "page_second_candidate =
     \<lparr>locator_result = (\<lambda>s. None),
      is_visible_result =
        (\<lambda>l t. Ret (l \<in> {First ''.temperature'', First ''h1'', First ''.description'',
                           First ''.weather'', First ''.error''})),
      text_content_result = (\<lambda>l. Ret (Some ''21'')),
      fill_result = (\<lambda>l v. None),
      press_result = (\<lambda>l k. None),
      goto_result = (\<lambda>u. None),
      wait_for_load_state_result = (\<lambda>s. None)\<rparr>"

definition page_malformed :: Page where
  "page_malformed =
     \<lparr>locator_result = (\<lambda>s. None),
      is_visible_result = (\<lambda>l t. Raise SelectorError),
      text_content_result = (\<lambda>l. Raise SelectorError),
      fill_result = (\<lambda>l v. Some SelectorError),
      press_result = (\<lambda>l k. Some SelectorError),
      goto_result = (\<lambda>u. None),
      wait_for_load_state_result = (\<lambda>s. None)\<rparr>"

definition page_hidden :: Page where
  "page_hidden =
     \<lparr>locator_result = (\<lambda>s. None),
      is_visible_result = (\<lambda>l t. Ret False),
      text_content_result = (\<lambda>l. Raise TimeoutError),
      fill_result = (\<lambda>l v. Some TimeoutError),
      press_result = (\<lambda>l k. Some TimeoutError),
      goto_result = (\<lambda>u. None),
      wait_for_load_state_result = (\<lambda>s. None)\<rparr>"





section \<open>Properties of the validators\<close>

lemma all_fields_in_dict:
  "all_fields_in fs (PDict kvs) = Ret (set fs \<subseteq> fst ` set kvs)"
  by (induction fs) auto

text \<open>
  Claim C5. On a dictionary, \<^verbatim>\<open>validate_weather_response\<close> returns \<^verbatim>\<open>True\<close> exactly when
  the nine keys coord, weather, main, wind, clouds, dt, sys, id, name are all present, and
  \<^verbatim>\<open>validate_forecast_response\<close> returns \<^verbatim>\<open>True\<close> exactly when the five keys cod, message,
  cnt, list, city are all present; the values stored under the keys play no part. In
  particular a dictionary without the key list is rejected by the forecast validator.
\<close>

theorem validators_required_keys:
  "validate_weather_response (PDict kvs) =
     Ret ({''coord'', ''weather'', ''main'', ''wind'', ''clouds'', ''dt'', ''sys'', ''id'', ''name''}
            \<subseteq> fst ` set kvs)
   \<and> validate_forecast_response (PDict kvs) =
     Ret ({''cod'', ''message'', ''cnt'', ''list'', ''city''} \<subseteq> fst ` set kvs)
   \<and> (''list'' \<notin> fst ` set kvs \<longrightarrow> validate_forecast_response (PDict kvs) = Ret False)"
  by (simp add: validate_weather_response_def validate_forecast_response_def
        all_fields_in_dict weather_required_fields_def forecast_required_fields_def)

theorem validators_required_keys_witness:
  "validate_forecast_response
     (PDict [(''cod'', PStr ''200''), (''message'', PInt 0), (''cnt'', PInt 40), (''city'', PNone)])
     = Ret False
   \<and> validate_forecast_response
     (PDict [(''cod'', PStr ''200''), (''message'', PInt 0), (''cnt'', PInt 40),
             (''list'', PList []), (''city'', PNone)])
     = Ret True"
  using validators_required_keys
          [of "[(''cod'', PStr ''200''), (''message'', PInt 0), (''cnt'', PInt 40), (''city'', PNone)]"]
        validators_required_keys
          [of "[(''cod'', PStr ''200''), (''message'', PInt 0), (''cnt'', PInt 40),
                (''list'', PList []), (''city'', PNone)]"]
  by simp

text \<open>
  Claim C10. Both validators return on every input, and on every input that is not a
  dictionary (\<^verbatim>\<open>None\<close>, a string, a list, a number) they return \<^verbatim>\<open>False\<close>: the
  \<^verbatim>\<open>isinstance\<close> guard is tested before any key lookup, so the \<^verbatim>\<open>TypeError\<close> of
  \<^verbatim>\<open>in\<close> on a value that is not iterable is never reached.
\<close>

theorem validators_total:
  "(\<exists>b. validate_weather_response v = Ret b)
   \<and> (\<exists>b. validate_forecast_response v = Ret b)
   \<and> (\<not> isinstance_dict v \<longrightarrow>
        validate_weather_response v = Ret False \<and> validate_forecast_response v = Ret False)"
  by (cases v)
     (auto simp add: validate_weather_response_def validate_forecast_response_def
        all_fields_in_dict)

theorem validators_total_witness:
  "\<not> isinstance_dict PNone
   \<and> validate_weather_response PNone = Ret False
   \<and> validate_forecast_response PNone = Ret False
   \<and> validate_weather_response (PStr ''coord weather'') = Ret False
   \<and> validate_forecast_response (PList [PStr ''cod'']) = Ret False
   \<and> validate_weather_response (PInt 7) = Ret False"
  using validators_total [of PNone] validators_total [of "PStr ''coord weather''"]
        validators_total [of "PList [PStr ''cod'']"] validators_total [of "PInt 7"]
  by simp

section \<open>Properties of the resolution loops\<close>

lemma probe_text_unfold:
  "probe_text pg t s tr =
     (case locator_result pg s of
        Some e \<Rightarrow> (Ret Continue, tr @ [EvLocator s])
      | None \<Rightarrow>
          (case is_visible_result pg (First s) t of
             Raise e \<Rightarrow> (Ret Continue, tr @ [EvLocator s, EvIsVisible (First s) t])
           | Ret v \<Rightarrow>
               if v then
                 (case text_content_result pg (First s) of
                    Raise e \<Rightarrow>
                      (Ret Continue,
                       tr @ [EvLocator s, EvIsVisible (First s) t, EvTextContent (First s)])
                  | Ret x \<Rightarrow>
                      (Ret (Return x),
                       tr @ [EvLocator s, EvIsVisible (First s) t, EvTextContent (First s)]))
               else (Ret Continue, tr @ [EvLocator s, EvIsVisible (First s) t])))"
  by (simp add: probe_text_def try_except_def bind_def page_locator_def is_visible_call_def
        text_content_def call_def ret_def split: option.splits res.splits)

lemma probe_flag_unfold:
  "probe_flag pg t s tr =
     (case locator_result pg s of
        Some e \<Rightarrow> (Ret Continue, tr @ [EvLocator s])
      | None \<Rightarrow>
          (case is_visible_result pg (First s) t of
             Raise e \<Rightarrow> (Ret Continue, tr @ [EvLocator s, EvIsVisible (First s) t])
           | Ret v \<Rightarrow>
               if v then (Ret (Return True), tr @ [EvLocator s, EvIsVisible (First s) t])
               else (Ret Continue, tr @ [EvLocator s, EvIsVisible (First s) t])))"
  by (simp add: probe_flag_def try_except_def bind_def page_locator_def is_visible_call_def
        call_def ret_def split: option.splits res.splits)

lemma tried_append: "tried (xs @ ys) = tried xs @ tried ys"
  by (induction xs rule: tried.induct) simp_all

lemma visibility_timeouts_append:
  "visibility_timeouts (xs @ ys) = visibility_timeouts xs @ visibility_timeouts ys"
  by (induction xs rule: visibility_timeouts.induct) simp_all

lemma navigations_append: "navigations (xs @ ys) = navigations xs @ navigations ys"
  by (induction xs rule: navigations.induct) simp_all

lemma for_each_Cons_apply:
  "for_each body (s # rest) d tr =
     (case body s tr of
        (Ret (Return v), tr1) \<Rightarrow> (Ret v, tr1)
      | (Ret Continue, tr1) \<Rightarrow> for_each body rest d tr1
      | (Raise e, tr1) \<Rightarrow> (Raise e, tr1))"
  by (simp add: bind_def ret_def split: prod.splits res.splits ctl.splits)

lemma for_each_Nil_apply: "for_each body [] d tr = (Ret d, tr)"
  by (simp add: ret_def)

declare for_each.simps [simp del]

lemma probe_text_never_raises: "fst (probe_text pg t s tr) \<noteq> Raise e"
  by (simp add: probe_text_unfold split: option.splits res.splits)

lemma probe_flag_never_raises: "fst (probe_flag pg t s tr) \<noteq> Raise e"
  by (simp add: probe_flag_unfold split: option.splits res.splits)

lemma for_each_never_raises:
  assumes "\<And>s tr e. fst (body s tr) \<noteq> Raise e"
  shows "fst (for_each body sels d tr) \<noteq> Raise e"
proof (induction sels arbitrary: tr)
  case Nil
  show ?case by (simp add: for_each_Nil_apply)
next
  case (Cons s rest)
  obtain r tr1 where b: "body s tr = (r, tr1)" by (cases "body s tr")
  with assms [of s tr] have "\<And>e. r \<noteq> Raise e" by simp
  then show ?case using Cons.IH [of tr1] b
    by (cases r) (auto simp add: for_each_Cons_apply split: ctl.splits)
qed

lemma probe_text_hidden:
  "\<not> resolves_visible pg t s \<Longrightarrow> fst (probe_text pg t s tr) = Ret Continue"
  by (auto simp add: probe_text_unfold resolves_visible_def split: option.splits res.splits)

lemma probe_flag_hidden:
  "\<not> resolves_visible pg t s \<Longrightarrow> fst (probe_flag pg t s tr) = Ret Continue"
  by (auto simp add: probe_flag_unfold resolves_visible_def split: option.splits res.splits)

lemma probe_text_tried: "tried (snd (probe_text pg t s tr)) = tried tr @ [s]"
  by (simp add: probe_text_unfold tried_append split: option.splits res.splits)

lemma probe_flag_tried: "tried (snd (probe_flag pg t s tr)) = tried tr @ [s]"
  by (simp add: probe_flag_unfold tried_append split: option.splits res.splits)

lemma for_each_text_absent:
  "\<forall>s \<in> set sels. \<not> resolves_visible pg t s \<Longrightarrow>
     fst (for_each (probe_text pg t) sels None tr) = Ret None
     \<and> tried (snd (for_each (probe_text pg t) sels None tr)) = tried tr @ sels"
proof (induction sels arbitrary: tr)
  case Nil
  show ?case by (simp add: for_each_Nil_apply)
next
  case (Cons s rest)
  obtain r tr1 where b: "probe_text pg t s tr = (r, tr1)" by (cases "probe_text pg t s tr")
  from Cons.prems have h: "\<not> resolves_visible pg t s" by simp
  from probe_text_hidden [OF h, of tr] b have r: "r = Ret Continue" by simp
  from probe_text_tried [of pg t s tr] b have t1: "tried tr1 = tried tr @ [s]" by simp
  from Cons.prems have "\<forall>s \<in> set rest. \<not> resolves_visible pg t s" by simp
  from Cons.IH [OF this, of tr1] show ?case
    by (simp add: for_each_Cons_apply b r t1)
qed

lemma for_each_flag_absent:
  "\<forall>s \<in> set sels. \<not> resolves_visible pg t s \<Longrightarrow>
     fst (for_each (probe_flag pg t) sels False tr) = Ret False
     \<and> tried (snd (for_each (probe_flag pg t) sels False tr)) = tried tr @ sels"
proof (induction sels arbitrary: tr)
  case Nil
  show ?case by (simp add: for_each_Nil_apply)
next
  case (Cons s rest)
  obtain r tr1 where b: "probe_flag pg t s tr = (r, tr1)" by (cases "probe_flag pg t s tr")
  from Cons.prems have h: "\<not> resolves_visible pg t s" by simp
  from probe_flag_hidden [OF h, of tr] b have r: "r = Ret Continue" by simp
  from probe_flag_tried [of pg t s tr] b have t1: "tried tr1 = tried tr @ [s]" by simp
  from Cons.prems have "\<forall>s \<in> set rest. \<not> resolves_visible pg t s" by simp
  from Cons.IH [OF this, of tr1] show ?case
    by (simp add: for_each_Cons_apply b r t1)
qed

lemma probe_text_found:
  "resolves_visible pg t s \<Longrightarrow> text_content_result pg (First s) = Ret x \<Longrightarrow>
     fst (probe_text pg t s tr) = Ret (Return x)"
  by (simp add: probe_text_unfold resolves_visible_def)

lemma probe_flag_found:
  "resolves_visible pg t s \<Longrightarrow> fst (probe_flag pg t s tr) = Ret (Return True)"
  by (simp add: probe_flag_unfold resolves_visible_def)

lemma for_each_text_first:
  "find (resolves_visible pg t) sels = Some s \<Longrightarrow> text_content_result pg (First s) = Ret x \<Longrightarrow>
     fst (for_each (probe_text pg t) sels None tr) = Ret x
     \<and> tried (snd (for_each (probe_text pg t) sels None tr))
         = tried tr @ takeWhile (\<lambda>c. \<not> resolves_visible pg t c) sels @ [s]"
proof (induction sels arbitrary: tr)
  case Nil
  then show ?case by simp
next
  case (Cons c rest)
  obtain r tr1 where b: "probe_text pg t c tr = (r, tr1)" by (cases "probe_text pg t c tr")
  from probe_text_tried [of pg t c tr] b have t1: "tried tr1 = tried tr @ [c]" by simp
  show ?case
  proof (cases "resolves_visible pg t c")
    case True
    with Cons.prems have cs: "c = s" by simp
    from probe_text_found [of pg t s x tr] True Cons.prems(2) b cs
    have r: "r = Ret (Return x)" by simp
    show ?thesis using True b r t1 cs by (simp add: for_each_Cons_apply)
  next
    case False
    from probe_text_hidden [OF False, of tr] b have r: "r = Ret Continue" by simp
    from Cons.prems False have "find (resolves_visible pg t) rest = Some s" by simp
    from Cons.IH [OF this Cons.prems(2), of tr1] show ?thesis
      using False by (simp add: for_each_Cons_apply b r t1)
  qed
qed

lemma for_each_flag_first:
  "find (resolves_visible pg t) sels = Some s \<Longrightarrow>
     fst (for_each (probe_flag pg t) sels False tr) = Ret True
     \<and> tried (snd (for_each (probe_flag pg t) sels False tr))
         = tried tr @ takeWhile (\<lambda>c. \<not> resolves_visible pg t c) sels @ [s]"
proof (induction sels arbitrary: tr)
  case Nil
  then show ?case by simp
next
  case (Cons c rest)
  obtain r tr1 where b: "probe_flag pg t c tr = (r, tr1)" by (cases "probe_flag pg t c tr")
  from probe_flag_tried [of pg t c tr] b have t1: "tried tr1 = tried tr @ [c]" by simp
  show ?case
  proof (cases "resolves_visible pg t c")
    case True
    with Cons.prems have cs: "c = s" by simp
    from probe_flag_found [of pg t s tr] True b cs
    have r: "r = Ret (Return True)" by simp
    show ?thesis using True b r t1 cs by (simp add: for_each_Cons_apply)
  next
    case False
    from probe_flag_hidden [OF False, of tr] b have r: "r = Ret Continue" by simp
    from Cons.prems False have "find (resolves_visible pg t) rest = Some s" by simp
    from Cons.IH [OF this, of tr1] show ?thesis
      using False by (simp add: for_each_Cons_apply b r t1)
  qed
qed

lemma probe_text_timeouts:
  "set (visibility_timeouts (snd (probe_text pg t s tr))) \<subseteq> set (visibility_timeouts tr) \<union> {t}"
  by (auto simp add: probe_text_unfold visibility_timeouts_append split: option.splits res.splits)

lemma probe_flag_timeouts:
  "set (visibility_timeouts (snd (probe_flag pg t s tr))) \<subseteq> set (visibility_timeouts tr) \<union> {t}"
  by (auto simp add: probe_flag_unfold visibility_timeouts_append split: option.splits res.splits)

lemma for_each_timeouts:
  assumes "\<And>s tr. set (visibility_timeouts (snd (body s tr))) \<subseteq> set (visibility_timeouts tr) \<union> {t}"
  shows "set (visibility_timeouts (snd (for_each body sels d tr))) \<subseteq> set (visibility_timeouts tr) \<union> {t}"
proof (induction sels arbitrary: tr)
  case Nil
  show ?case by (auto simp add: for_each_Nil_apply)
next
  case (Cons s rest)
  obtain r tr1 where b: "body s tr = (r, tr1)" by (cases "body s tr")
  from assms [of s tr] b
  have t1: "set (visibility_timeouts tr1) \<subseteq> set (visibility_timeouts tr) \<union> {t}" by simp
  from Cons.IH [of tr1] t1
  have "set (visibility_timeouts (snd (for_each body rest d tr1))) \<subseteq> set (visibility_timeouts tr) \<union> {t}"
    by blast
  with t1 show ?case
    by (simp add: for_each_Cons_apply b split: res.splits ctl.splits)
qed

lemma upto_first_find_Some:
  "find P xs = Some s \<Longrightarrow> upto_first P xs = takeWhile (\<lambda>c. \<not> P c) xs @ [s]"
  by (induction xs) (auto split: if_splits)

lemma upto_first_find_None: "find P xs = None \<Longrightarrow> upto_first P xs = xs"
  by (induction xs) (auto split: if_splits)

lemma find_None_iff_all: "(find P xs = None) = (\<forall>x \<in> set xs. \<not> P x)"
  by (induction xs) auto

lemma set_upto_first: "set (upto_first P xs) \<subseteq> set xs"
  by (induction xs) auto

lemma probe_text_result:
  "fst (probe_text pg t s tr) =
     (if readable pg t s then Ret (Return (read_text pg s)) else Ret Continue)"
  by (auto simp add: probe_text_unfold readable_def resolves_visible_def read_text_def
        split: option.splits res.splits)

lemma probe_flag_result:
  "fst (probe_flag pg t s tr) =
     (if resolves_visible pg t s then Ret (Return True) else Ret Continue)"
  by (auto simp add: probe_flag_unfold resolves_visible_def split: option.splits res.splits)

lemma for_each_text_exact:
  "fst (for_each (probe_text pg t) sels None tr)
     = Ret (case find (readable pg t) sels of None \<Rightarrow> None | Some s \<Rightarrow> read_text pg s)
   \<and> tried (snd (for_each (probe_text pg t) sels None tr))
     = tried tr @ upto_first (readable pg t) sels"
proof (induction sels arbitrary: tr)
  case Nil
  show ?case by (simp add: for_each_Nil_apply)
next
  case (Cons c rest)
  obtain r tr1 where b: "probe_text pg t c tr = (r, tr1)" by (cases "probe_text pg t c tr")
  from probe_text_tried [of pg t c tr] b have t1: "tried tr1 = tried tr @ [c]" by simp
  from probe_text_result [of pg t c tr] b
  have r: "r = (if readable pg t c then Ret (Return (read_text pg c)) else Ret Continue)"
    by simp
  show ?case using Cons.IH [of tr1] by (simp add: for_each_Cons_apply b r t1)
qed

lemma for_each_flag_exact:
  "fst (for_each (probe_flag pg t) sels False tr)
     = Ret (find (resolves_visible pg t) sels \<noteq> None)
   \<and> tried (snd (for_each (probe_flag pg t) sels False tr))
     = tried tr @ upto_first (resolves_visible pg t) sels"
proof (induction sels arbitrary: tr)
  case Nil
  show ?case by (simp add: for_each_Nil_apply)
next
  case (Cons c rest)
  obtain r tr1 where b: "probe_flag pg t c tr = (r, tr1)" by (cases "probe_flag pg t c tr")
  from probe_flag_tried [of pg t c tr] b have t1: "tried tr1 = tried tr @ [c]" by simp
  from probe_flag_result [of pg t c tr] b
  have r: "r = (if resolves_visible pg t c then Ret (Return True) else Ret Continue)"
    by simp
  show ?case using Cons.IH [of tr1] by (simp add: for_each_Cons_apply b r t1)
qed

lemma for_each_invariant:
  assumes "\<And>s tr. Inv tr \<Longrightarrow> Inv (snd (body s tr))" and "Inv tr"
  shows "Inv (snd (for_each body sels d tr))"
  using assms(2)
proof (induction sels arbitrary: tr)
  case Nil
  then show ?case by (simp add: for_each_Nil_apply)
next
  case (Cons s rest)
  obtain r tr1 where b: "body s tr = (r, tr1)" by (cases "body s tr")
  from assms(1) [OF Cons.prems, of s] b have i1: "Inv tr1" by simp
  from Cons.IH [OF i1] i1 show ?case
    by (simp add: for_each_Cons_apply b split: res.splits ctl.splits)
qed

lemma probe_text_checks:
  "visibility_timeouts tr
     = replicate (length (filter (\<lambda>c. locator_result pg c = None) (tried tr))) t \<Longrightarrow>
   visibility_timeouts (snd (probe_text pg t s tr))
     = replicate (length (filter (\<lambda>c. locator_result pg c = None)
                            (tried (snd (probe_text pg t s tr))))) t"
  by (simp add: probe_text_unfold tried_append visibility_timeouts_append
        replicate_append_same split: option.splits res.splits)

lemma probe_flag_checks:
  "visibility_timeouts tr
     = replicate (length (filter (\<lambda>c. locator_result pg c = None) (tried tr))) t \<Longrightarrow>
   visibility_timeouts (snd (probe_flag pg t s tr))
     = replicate (length (filter (\<lambda>c. locator_result pg c = None)
                            (tried (snd (probe_flag pg t s tr))))) t"
  by (simp add: probe_flag_unfold tried_append visibility_timeouts_append
        replicate_append_same split: option.splits res.splits)

lemma for_each_text_checks:
  "visibility_timeouts tr
     = replicate (length (filter (\<lambda>c. locator_result pg c = None) (tried tr))) t \<Longrightarrow>
   visibility_timeouts (snd (for_each (probe_text pg t) sels d tr))
     = replicate (length (filter (\<lambda>c. locator_result pg c = None)
                            (tried (snd (for_each (probe_text pg t) sels d tr))))) t"
  by (rule for_each_invariant
        [where Inv = "\<lambda>tr. visibility_timeouts tr
           = replicate (length (filter (\<lambda>c. locator_result pg c = None) (tried tr))) t"])
     (rule probe_text_checks)

lemma for_each_flag_checks:
  "visibility_timeouts tr
     = replicate (length (filter (\<lambda>c. locator_result pg c = None) (tried tr))) t \<Longrightarrow>
   visibility_timeouts (snd (for_each (probe_flag pg t) sels d tr))
     = replicate (length (filter (\<lambda>c. locator_result pg c = None)
                            (tried (snd (for_each (probe_flag pg t) sels d tr))))) t"
  by (rule for_each_invariant
        [where Inv = "\<lambda>tr. visibility_timeouts tr
           = replicate (length (filter (\<lambda>c. locator_result pg c = None) (tried tr))) t"])
     (rule probe_flag_checks)

lemma for_each_text_skip:
  "\<not> resolves_visible pg t c \<Longrightarrow>
     fst (for_each (probe_text pg t) (c # rest) None tr)
       = fst (for_each (probe_text pg t) rest None tr)
     \<and> tried (snd (for_each (probe_text pg t) (c # rest) None tr))
       = tried tr @ c # tried (snd (for_each (probe_text pg t) rest None []))"
  using for_each_text_exact [of pg t "c # rest" tr] for_each_text_exact [of pg t rest tr]
    for_each_text_exact [of pg t rest "[]"]
  by (simp add: readable_def)

lemma for_each_flag_skip:
  "\<not> resolves_visible pg t c \<Longrightarrow>
     fst (for_each (probe_flag pg t) (c # rest) False tr)
       = fst (for_each (probe_flag pg t) rest False tr)
     \<and> tried (snd (for_each (probe_flag pg t) (c # rest) False tr))
       = tried tr @ c # tried (snd (for_each (probe_flag pg t) rest False []))"
  using for_each_flag_exact [of pg t "c # rest" tr] for_each_flag_exact [of pg t rest tr]
    for_each_flag_exact [of pg t rest "[]"]
  by simp

text \<open>
  Claim C1, as stated, fails for the getters: the \<^verbatim>\<open>return\<close> of the text is inside the
  \<^verbatim>\<open>try\<close>. On the page below the first temperature candidate is the first one that
  resolves to a visible element, reading its text raises, the bare \<^verbatim>\<open>except\<close> swallows
  the exception, and the second candidate is tried and its text returned.
\<close>

theorem short_circuit_counterexample:
  "find (resolves_visible page_text_fails 5000) temperature_selectors = Some TEMPERATURE
   \<and> text_content_result page_text_fails (First TEMPERATURE) = Raise TimeoutError
   \<and> get_temperature \<lparr>page = page_text_fails, settings = default_settings\<rparr> []
       = (Ret (Some ''21''),
          [EvLocator TEMPERATURE, EvIsVisible (First TEMPERATURE) 5000,
           EvTextContent (First TEMPERATURE),
           EvLocator ''.temperature'', EvIsVisible (First ''.temperature'') 5000,
           EvTextContent (First ''.temperature'')])"
  by (simp add: get_temperature_def temperature_selectors_def for_each_Cons_apply
        probe_text_unfold page_text_fails_def resolves_visible_def TEMPERATURE_def)

text \<open>
  Claim C1, amended. When the first candidate that resolves to a visible element is
  \<open>s\<close> and (for the three getters) reading the text of \<open>s\<close> returns, the method returns
  that text (\<^verbatim>\<open>True\<close> for the two checks), and the candidates tried are exactly those
  before \<open>s\<close> and \<open>s\<close> itself: no candidate after the match is evaluated. A candidate
  whose text cannot be read is passed over like one that is not visible: a getter returns
  the text of the first candidate that is visible and can be read, and the candidates
  tried are exactly those before it and itself.
\<close>

theorem first_visible_candidate_returned:
  "(find (resolves_visible (page self) 5000) temperature_selectors = Some s1
      \<and> text_content_result (page self) (First s1) = Ret x1 \<longrightarrow>
    fst (get_temperature self tr) = Ret x1
    \<and> tried (snd (get_temperature self tr))
        = tried tr @ takeWhile (\<lambda>c. \<not> resolves_visible (page self) 5000 c) temperature_selectors @ [s1])
   \<and> (find (resolves_visible (page self) 5000) city_selectors = Some s2
      \<and> text_content_result (page self) (First s2) = Ret x2 \<longrightarrow>
    fst (get_city_name self tr) = Ret x2
    \<and> tried (snd (get_city_name self tr))
        = tried tr @ takeWhile (\<lambda>c. \<not> resolves_visible (page self) 5000 c) city_selectors @ [s2])
   \<and> (find (resolves_visible (page self) 5000) description_selectors = Some s3
      \<and> text_content_result (page self) (First s3) = Ret x3 \<longrightarrow>
    fst (get_weather_description self tr) = Ret x3
    \<and> tried (snd (get_weather_description self tr))
        = tried tr @ takeWhile (\<lambda>c. \<not> resolves_visible (page self) 5000 c) description_selectors @ [s3])
   \<and> (find (resolves_visible (page self) 10000) weather_selectors = Some s4 \<longrightarrow>
    fst (is_weather_info_displayed self tr) = Ret True
    \<and> tried (snd (is_weather_info_displayed self tr))
        = tried tr @ takeWhile (\<lambda>c. \<not> resolves_visible (page self) 10000 c) weather_selectors @ [s4])
   \<and> (find (resolves_visible (page self) 5000) error_selectors = Some s5 \<longrightarrow>
    fst (is_error_displayed self tr) = Ret True
    \<and> tried (snd (is_error_displayed self tr))
        = tried tr @ takeWhile (\<lambda>c. \<not> resolves_visible (page self) 5000 c) error_selectors @ [s5])
   \<and> (find (readable (page self) 5000) temperature_selectors = Some s6
      \<and> text_content_result (page self) (First s6) = Ret x6 \<longrightarrow>
    fst (get_temperature self tr) = Ret x6
    \<and> tried (snd (get_temperature self tr))
        = tried tr @ takeWhile (\<lambda>c. \<not> readable (page self) 5000 c) temperature_selectors @ [s6])
   \<and> (find (readable (page self) 5000) city_selectors = Some s7
      \<and> text_content_result (page self) (First s7) = Ret x7 \<longrightarrow>
    fst (get_city_name self tr) = Ret x7
    \<and> tried (snd (get_city_name self tr))
        = tried tr @ takeWhile (\<lambda>c. \<not> readable (page self) 5000 c) city_selectors @ [s7])
   \<and> (find (readable (page self) 5000) description_selectors = Some s8
      \<and> text_content_result (page self) (First s8) = Ret x8 \<longrightarrow>
    fst (get_weather_description self tr) = Ret x8
    \<and> tried (snd (get_weather_description self tr))
        = tried tr @ takeWhile (\<lambda>c. \<not> readable (page self) 5000 c) description_selectors @ [s8])"
proof -
  have getter:
    "find (readable (page self) 5000) sels = Some s \<and> text_content_result (page self) (First s) = Ret x
       \<longrightarrow> fst (for_each (probe_text (page self) 5000) sels None tr) = Ret x
           \<and> tried (snd (for_each (probe_text (page self) 5000) sels None tr))
               = tried tr @ takeWhile (\<lambda>c. \<not> readable (page self) 5000 c) sels @ [s]"
    for sels s x
    using for_each_text_exact [of "page self" 5000 sels tr]
      upto_first_find_Some [of "readable (page self) 5000" sels s]
    by (simp add: read_text_def)
  show ?thesis
    unfolding get_temperature_def get_city_name_def get_weather_description_def
      is_weather_info_displayed_def is_error_displayed_def
    using for_each_text_first [of "page self" 5000 temperature_selectors s1 x1 tr]
      for_each_text_first [of "page self" 5000 city_selectors s2 x2 tr]
      for_each_text_first [of "page self" 5000 description_selectors s3 x3 tr]
      for_each_flag_first [of "page self" 10000 weather_selectors s4 tr]
      for_each_flag_first [of "page self" 5000 error_selectors s5 tr]
      getter [of temperature_selectors s6 x6] getter [of city_selectors s7 x7]
      getter [of description_selectors s8 x8]
    by blast
qed

theorem first_visible_candidate_returned_witness:
  "fst (get_temperature \<lparr>page = page_second_candidate, settings = default_settings\<rparr> [])
     = Ret (Some ''21'')
   \<and> tried (snd (get_temperature \<lparr>page = page_second_candidate, settings = default_settings\<rparr> []))
     = [TEMPERATURE, ''.temperature'']
   \<and> fst (get_city_name \<lparr>page = page_second_candidate, settings = default_settings\<rparr> [])
     = Ret (Some ''21'')
   \<and> tried (snd (get_city_name \<lparr>page = page_second_candidate, settings = default_settings\<rparr> []))
     = [CITY_NAME, ''h1'']
   \<and> fst (get_weather_description \<lparr>page = page_second_candidate, settings = default_settings\<rparr> [])
     = Ret (Some ''21'')
   \<and> tried (snd (get_weather_description \<lparr>page = page_second_candidate, settings = default_settings\<rparr> []))
     = [WEATHER_DESCRIPTION, ''.description'']
   \<and> fst (is_weather_info_displayed \<lparr>page = page_second_candidate, settings = default_settings\<rparr> [])
     = Ret True
   \<and> tried (snd (is_weather_info_displayed \<lparr>page = page_second_candidate, settings = default_settings\<rparr> []))
     = [WEATHER_INFO, ''.weather'']
   \<and> fst (is_error_displayed \<lparr>page = page_second_candidate, settings = default_settings\<rparr> [])
     = Ret True
   \<and> tried (snd (is_error_displayed \<lparr>page = page_second_candidate, settings = default_settings\<rparr> []))
     = [ERROR_MESSAGE, ''.error'']
   \<and> fst (get_temperature \<lparr>page = page_text_fails, settings = default_settings\<rparr> [])
     = Ret (Some ''21'')
   \<and> tried (snd (get_temperature \<lparr>page = page_text_fails, settings = default_settings\<rparr> []))
     = [TEMPERATURE, ''.temperature'']
   \<and> fst (get_city_name \<lparr>page = page_text_fails, settings = default_settings\<rparr> [])
     = Ret (Some ''21'')
   \<and> fst (get_weather_description \<lparr>page = page_text_fails, settings = default_settings\<rparr> [])
     = Ret (Some ''21'')"
  using first_visible_candidate_returned
          [where self = "\<lparr>page = page_second_candidate, settings = default_settings\<rparr>"
             and tr = "[]"
             and ?s1.0 = "''.temperature''" and ?x1.0 = "Some ''21''"
             and ?s2.0 = "''h1''" and ?x2.0 = "Some ''21''"
             and ?s3.0 = "''.description''" and ?x3.0 = "Some ''21''"
             and ?s4.0 = "''.weather''" and ?s5.0 = "''.error''"]
        first_visible_candidate_returned
          [where self = "\<lparr>page = page_text_fails, settings = default_settings\<rparr>"
             and tr = "[]"
             and ?s6.0 = "''.temperature''" and ?x6.0 = "Some ''21''"
             and ?s7.0 = CITY_NAME and ?x7.0 = "Some ''21''"
             and ?s8.0 = WEATHER_DESCRIPTION and ?x8.0 = "Some ''21''"]
  by (simp add: page_second_candidate_def page_text_fails_def resolves_visible_def readable_def
        temperature_selectors_def city_selectors_def description_selectors_def
        weather_selectors_def error_selectors_def
        TEMPERATURE_def CITY_NAME_def WEATHER_DESCRIPTION_def WEATHER_INFO_def ERROR_MESSAGE_def)

lemma get_error_message_apply:
  "get_error_message self tr =
     (case is_error_displayed self tr of
        (Ret shown, tr1) \<Rightarrow>
          if shown then for_each (probe_text (page self) 5000) error_selectors None tr1
          else (Ret None, tr1)
      | (Raise e, tr1) \<Rightarrow> (Raise e, tr1))"
  by (simp add: get_error_message_def bind_def ret_def split: prod.splits res.splits)

lemma for_each_text_never_raises: "fst (for_each (probe_text pg t) sels d tr) \<noteq> Raise e"
  by (rule for_each_never_raises) (rule probe_text_never_raises)

lemma for_each_flag_never_raises: "fst (for_each (probe_flag pg t) sels d tr) \<noteq> Raise e"
  by (rule for_each_never_raises) (rule probe_flag_never_raises)

lemma get_error_message_never_raises: "fst (get_error_message self tr) \<noteq> Raise e"
proof -
  obtain r tr1 where b: "is_error_displayed self tr = (r, tr1)"
    by (cases "is_error_displayed self tr")
  have "\<And>x. r \<noteq> Raise x"
    using for_each_flag_never_raises [of "page self" 5000 error_selectors False tr] b
    by (simp add: is_error_displayed_def)
  then show ?thesis
    using for_each_text_never_raises [of "page self" 5000 error_selectors None tr1 e] b
    by (cases r) (simp_all add: get_error_message_apply)
qed

lemma get_error_message_exact:
  "fst (get_error_message self tr)
     = Ret (if find (resolves_visible (page self) 5000) error_selectors = None then None
            else (case find (readable (page self) 5000) error_selectors of
                    None \<Rightarrow> None | Some s \<Rightarrow> read_text (page self) s))
   \<and> tried (snd (get_error_message self tr))
     = tried tr @ upto_first (resolves_visible (page self) 5000) error_selectors
         @ (if find (resolves_visible (page self) 5000) error_selectors = None then []
            else upto_first (readable (page self) 5000) error_selectors)"
proof -
  obtain r tr1 where b: "is_error_displayed self tr = (r, tr1)"
    by (cases "is_error_displayed self tr")
  from for_each_flag_exact [of "page self" 5000 error_selectors tr] b
  have r: "r = Ret (find (resolves_visible (page self) 5000) error_selectors \<noteq> None)"
    and t1: "tried tr1 = tried tr @ upto_first (resolves_visible (page self) 5000) error_selectors"
    by (simp_all add: is_error_displayed_def)
  show ?thesis
    using for_each_text_exact [of "page self" 5000 error_selectors tr1]
    by (simp add: get_error_message_apply b r t1)
qed

text \<open>
  Claim C2. None of the six resolution methods raises, whatever the page answers: every
  exception of a candidate (a rejected selector, a timeout, a closed page) is caught by
  the bare \<^verbatim>\<open>except\<close>, the candidate counts as no match, and the loop goes on to the next
  candidate. The result of each method and the candidates it tries are fixed by which
  candidates resolve to a visible element (and, for the getters, can be read), and by
  nothing else. When no candidate resolves to a visible element the getters return
  \<^verbatim>\<open>None\<close> and the checks \<^verbatim>\<open>False\<close>, every candidate having been tried; the same holds for
  the loop on any candidate list, the empty one included, and a candidate that does not
  resolve is passed over: the loop on it and on the rest gives what the loop on the rest
  gives.
\<close>

theorem resolution_never_raises:
  "fst (get_temperature self tr) \<noteq> Raise e
   \<and> fst (get_city_name self tr) \<noteq> Raise e
   \<and> fst (get_weather_description self tr) \<noteq> Raise e
   \<and> fst (is_weather_info_displayed self tr) \<noteq> Raise e
   \<and> fst (is_error_displayed self tr) \<noteq> Raise e
   \<and> fst (get_error_message self tr) \<noteq> Raise e
   \<and> fst (get_temperature self tr)
       = Ret (case find (readable (page self) 5000) temperature_selectors of
                None \<Rightarrow> None | Some s \<Rightarrow> read_text (page self) s)
   \<and> tried (snd (get_temperature self tr))
       = tried tr @ upto_first (readable (page self) 5000) temperature_selectors
   \<and> fst (get_city_name self tr)
       = Ret (case find (readable (page self) 5000) city_selectors of
                None \<Rightarrow> None | Some s \<Rightarrow> read_text (page self) s)
   \<and> tried (snd (get_city_name self tr))
       = tried tr @ upto_first (readable (page self) 5000) city_selectors
   \<and> fst (get_weather_description self tr)
       = Ret (case find (readable (page self) 5000) description_selectors of
                None \<Rightarrow> None | Some s \<Rightarrow> read_text (page self) s)
   \<and> tried (snd (get_weather_description self tr))
       = tried tr @ upto_first (readable (page self) 5000) description_selectors
   \<and> fst (is_weather_info_displayed self tr)
       = Ret (find (resolves_visible (page self) 10000) weather_selectors \<noteq> None)
   \<and> tried (snd (is_weather_info_displayed self tr))
       = tried tr @ upto_first (resolves_visible (page self) 10000) weather_selectors
   \<and> fst (is_error_displayed self tr)
       = Ret (find (resolves_visible (page self) 5000) error_selectors \<noteq> None)
   \<and> tried (snd (is_error_displayed self tr))
       = tried tr @ upto_first (resolves_visible (page self) 5000) error_selectors
   \<and> fst (get_error_message self tr)
       = Ret (if find (resolves_visible (page self) 5000) error_selectors = None then None
              else (case find (readable (page self) 5000) error_selectors of
                      None \<Rightarrow> None | Some s \<Rightarrow> read_text (page self) s))
   \<and> tried (snd (get_error_message self tr))
       = tried tr @ upto_first (resolves_visible (page self) 5000) error_selectors
           @ (if find (resolves_visible (page self) 5000) error_selectors = None then []
              else upto_first (readable (page self) 5000) error_selectors)
   \<and> ((\<forall>s \<in> set temperature_selectors. \<not> resolves_visible (page self) 5000 s) \<longrightarrow>
        fst (get_temperature self tr) = Ret None
        \<and> tried (snd (get_temperature self tr)) = tried tr @ temperature_selectors)
   \<and> ((\<forall>s \<in> set city_selectors. \<not> resolves_visible (page self) 5000 s) \<longrightarrow>
        fst (get_city_name self tr) = Ret None
        \<and> tried (snd (get_city_name self tr)) = tried tr @ city_selectors)
   \<and> ((\<forall>s \<in> set description_selectors. \<not> resolves_visible (page self) 5000 s) \<longrightarrow>
        fst (get_weather_description self tr) = Ret None
        \<and> tried (snd (get_weather_description self tr)) = tried tr @ description_selectors)
   \<and> ((\<forall>s \<in> set weather_selectors. \<not> resolves_visible (page self) 10000 s) \<longrightarrow>
        fst (is_weather_info_displayed self tr) = Ret False
        \<and> tried (snd (is_weather_info_displayed self tr)) = tried tr @ weather_selectors)
   \<and> ((\<forall>s \<in> set error_selectors. \<not> resolves_visible (page self) 5000 s) \<longrightarrow>
        fst (is_error_displayed self tr) = Ret False
        \<and> tried (snd (is_error_displayed self tr)) = tried tr @ error_selectors
        \<and> fst (get_error_message self tr) = Ret None
        \<and> tried (snd (get_error_message self tr)) = tried tr @ error_selectors)
   \<and> ((\<forall>s \<in> set sels. \<not> resolves_visible pg t s) \<longrightarrow>
        fst (for_each (probe_text pg t) sels None tr) = Ret None
        \<and> tried (snd (for_each (probe_text pg t) sels None tr)) = tried tr @ sels
        \<and> fst (for_each (probe_flag pg t) sels False tr) = Ret False
        \<and> tried (snd (for_each (probe_flag pg t) sels False tr)) = tried tr @ sels)
   \<and> (\<not> resolves_visible pg t c \<longrightarrow>
        fst (for_each (probe_text pg t) (c # rest) None tr)
          = fst (for_each (probe_text pg t) rest None tr)
        \<and> tried (snd (for_each (probe_text pg t) (c # rest) None tr))
          = tried tr @ c # tried (snd (for_each (probe_text pg t) rest None []))
        \<and> fst (for_each (probe_flag pg t) (c # rest) False tr)
          = fst (for_each (probe_flag pg t) rest False tr)
        \<and> tried (snd (for_each (probe_flag pg t) (c # rest) False tr))
          = tried tr @ c # tried (snd (for_each (probe_flag pg t) rest False [])))"
proof -
  note nr_text = for_each_text_never_raises [of "page self" 5000 _ None tr e]
  note nr_flag = for_each_flag_never_raises [of "page self" _ _ False tr e]
  note ex_text = for_each_text_exact [of "page self" 5000 _ tr]
  note ex_flag = for_each_flag_exact [of "page self" _ _ tr]
  have absent_msg: "(\<forall>s \<in> set error_selectors. \<not> resolves_visible (page self) 5000 s) \<longrightarrow>
        fst (get_error_message self tr) = Ret None
        \<and> tried (snd (get_error_message self tr)) = tried tr @ error_selectors"
    using get_error_message_exact [of self tr]
      upto_first_find_None [of "resolves_visible (page self) 5000" error_selectors]
    by (simp add: find_None_iff_all)
  have exact: "fst (get_temperature self tr)
       = Ret (case find (readable (page self) 5000) temperature_selectors of
                None \<Rightarrow> None | Some s \<Rightarrow> read_text (page self) s)
   \<and> tried (snd (get_temperature self tr))
       = tried tr @ upto_first (readable (page self) 5000) temperature_selectors
   \<and> fst (get_city_name self tr)
       = Ret (case find (readable (page self) 5000) city_selectors of
                None \<Rightarrow> None | Some s \<Rightarrow> read_text (page self) s)
   \<and> tried (snd (get_city_name self tr))
       = tried tr @ upto_first (readable (page self) 5000) city_selectors
   \<and> fst (get_weather_description self tr)
       = Ret (case find (readable (page self) 5000) description_selectors of
                None \<Rightarrow> None | Some s \<Rightarrow> read_text (page self) s)
   \<and> tried (snd (get_weather_description self tr))
       = tried tr @ upto_first (readable (page self) 5000) description_selectors
   \<and> fst (is_weather_info_displayed self tr)
       = Ret (find (resolves_visible (page self) 10000) weather_selectors \<noteq> None)
   \<and> tried (snd (is_weather_info_displayed self tr))
       = tried tr @ upto_first (resolves_visible (page self) 10000) weather_selectors
   \<and> fst (is_error_displayed self tr)
       = Ret (find (resolves_visible (page self) 5000) error_selectors \<noteq> None)
   \<and> tried (snd (is_error_displayed self tr))
       = tried tr @ upto_first (resolves_visible (page self) 5000) error_selectors"
    using ex_text ex_flag
    by (simp add: get_temperature_def get_city_name_def get_weather_description_def
          is_weather_info_displayed_def is_error_displayed_def)
  have absent: "((\<forall>s \<in> set temperature_selectors. \<not> resolves_visible (page self) 5000 s) \<longrightarrow>
        fst (get_temperature self tr) = Ret None
        \<and> tried (snd (get_temperature self tr)) = tried tr @ temperature_selectors)
   \<and> ((\<forall>s \<in> set city_selectors. \<not> resolves_visible (page self) 5000 s) \<longrightarrow>
        fst (get_city_name self tr) = Ret None
        \<and> tried (snd (get_city_name self tr)) = tried tr @ city_selectors)
   \<and> ((\<forall>s \<in> set description_selectors. \<not> resolves_visible (page self) 5000 s) \<longrightarrow>
        fst (get_weather_description self tr) = Ret None
        \<and> tried (snd (get_weather_description self tr)) = tried tr @ description_selectors)
   \<and> ((\<forall>s \<in> set weather_selectors. \<not> resolves_visible (page self) 10000 s) \<longrightarrow>
        fst (is_weather_info_displayed self tr) = Ret False
        \<and> tried (snd (is_weather_info_displayed self tr)) = tried tr @ weather_selectors)
   \<and> ((\<forall>s \<in> set error_selectors. \<not> resolves_visible (page self) 5000 s) \<longrightarrow>
        fst (is_error_displayed self tr) = Ret False
        \<and> tried (snd (is_error_displayed self tr)) = tried tr @ error_selectors)"
    using for_each_text_absent [of temperature_selectors "page self" 5000 tr]
      for_each_text_absent [of city_selectors "page self" 5000 tr]
      for_each_text_absent [of description_selectors "page self" 5000 tr]
      for_each_flag_absent [of weather_selectors "page self" 10000 tr]
      for_each_flag_absent [of error_selectors "page self" 5000 tr]
    by (simp add: get_temperature_def get_city_name_def get_weather_description_def
          is_weather_info_displayed_def is_error_displayed_def)
  have never: "fst (get_temperature self tr) \<noteq> Raise e
   \<and> fst (get_city_name self tr) \<noteq> Raise e
   \<and> fst (get_weather_description self tr) \<noteq> Raise e
   \<and> fst (is_weather_info_displayed self tr) \<noteq> Raise e
   \<and> fst (is_error_displayed self tr) \<noteq> Raise e
   \<and> fst (get_error_message self tr) \<noteq> Raise e"
    using nr_text nr_flag get_error_message_never_raises [of self tr e]
    by (simp add: get_temperature_def get_city_name_def get_weather_description_def
          is_weather_info_displayed_def is_error_displayed_def)
  have generic: "((\<forall>s \<in> set sels. \<not> resolves_visible pg t s) \<longrightarrow>
        fst (for_each (probe_text pg t) sels None tr) = Ret None
        \<and> tried (snd (for_each (probe_text pg t) sels None tr)) = tried tr @ sels
        \<and> fst (for_each (probe_flag pg t) sels False tr) = Ret False
        \<and> tried (snd (for_each (probe_flag pg t) sels False tr)) = tried tr @ sels)"
    using for_each_text_absent [of sels pg t tr] for_each_flag_absent [of sels pg t tr]
    by simp
  have skip: "(\<not> resolves_visible pg t c \<longrightarrow>
        fst (for_each (probe_text pg t) (c # rest) None tr)
          = fst (for_each (probe_text pg t) rest None tr)
        \<and> tried (snd (for_each (probe_text pg t) (c # rest) None tr))
          = tried tr @ c # tried (snd (for_each (probe_text pg t) rest None []))
        \<and> fst (for_each (probe_flag pg t) (c # rest) False tr)
          = fst (for_each (probe_flag pg t) rest False tr)
        \<and> tried (snd (for_each (probe_flag pg t) (c # rest) False tr))
          = tried tr @ c # tried (snd (for_each (probe_flag pg t) rest False [])))"
    using for_each_text_skip [of pg t c rest tr] for_each_flag_skip [of pg t c rest tr]
    by blast
  from never exact get_error_message_exact [of self tr] absent absent_msg generic skip
  show ?thesis by blast
qed

theorem resolution_never_raises_witness:
  "fst (get_temperature \<lparr>page = page_malformed, settings = default_settings\<rparr> []) = Ret None
   \<and> tried (snd (get_temperature \<lparr>page = page_malformed, settings = default_settings\<rparr> []))
       = temperature_selectors
   \<and> fst (get_city_name \<lparr>page = page_malformed, settings = default_settings\<rparr> []) = Ret None
   \<and> fst (get_weather_description \<lparr>page = page_malformed, settings = default_settings\<rparr> [])
       = Ret None
   \<and> fst (is_weather_info_displayed \<lparr>page = page_malformed, settings = default_settings\<rparr> [])
       = Ret False
   \<and> fst (is_error_displayed \<lparr>page = page_malformed, settings = default_settings\<rparr> [])
       = Ret False
   \<and> tried (snd (is_error_displayed \<lparr>page = page_malformed, settings = default_settings\<rparr> []))
       = error_selectors
   \<and> fst (get_error_message \<lparr>page = page_malformed, settings = default_settings\<rparr> [])
       = Ret None
   \<and> fst (for_each (probe_text page_malformed 5000) [] None []) = Ret None
   \<and> fst (for_each (probe_flag page_malformed 5000) [] False []) = Ret False
   \<and> fst (for_each (probe_text page_malformed 5000) [''h1'', ''h2''] None [])
       = fst (for_each (probe_text page_malformed 5000) [''h2''] None [])"
proof -
  let ?self = "\<lparr>page = page_malformed, settings = default_settings\<rparr>"
  have part:
    "((\<forall>s \<in> set temperature_selectors. \<not> resolves_visible (page ?self) 5000 s) \<longrightarrow>
        fst (get_temperature ?self []) = Ret None
        \<and> tried (snd (get_temperature ?self [])) = tried [] @ temperature_selectors)
     \<and> ((\<forall>s \<in> set city_selectors. \<not> resolves_visible (page ?self) 5000 s) \<longrightarrow>
        fst (get_city_name ?self []) = Ret None
        \<and> tried (snd (get_city_name ?self [])) = tried [] @ city_selectors)
     \<and> ((\<forall>s \<in> set description_selectors. \<not> resolves_visible (page ?self) 5000 s) \<longrightarrow>
        fst (get_weather_description ?self []) = Ret None
        \<and> tried (snd (get_weather_description ?self [])) = tried [] @ description_selectors)
     \<and> ((\<forall>s \<in> set weather_selectors. \<not> resolves_visible (page ?self) 10000 s) \<longrightarrow>
        fst (is_weather_info_displayed ?self []) = Ret False
        \<and> tried (snd (is_weather_info_displayed ?self [])) = tried [] @ weather_selectors)
     \<and> ((\<forall>s \<in> set error_selectors. \<not> resolves_visible (page ?self) 5000 s) \<longrightarrow>
        fst (is_error_displayed ?self []) = Ret False
        \<and> tried (snd (is_error_displayed ?self [])) = tried [] @ error_selectors
        \<and> fst (get_error_message ?self []) = Ret None
        \<and> tried (snd (get_error_message ?self [])) = tried [] @ error_selectors)
     \<and> ((\<forall>s \<in> set []. \<not> resolves_visible page_malformed 5000 s) \<longrightarrow>
        fst (for_each (probe_text page_malformed 5000) [] None []) = Ret None
        \<and> tried (snd (for_each (probe_text page_malformed 5000) [] None [])) = tried [] @ []
        \<and> fst (for_each (probe_flag page_malformed 5000) [] False []) = Ret False
        \<and> tried (snd (for_each (probe_flag page_malformed 5000) [] False [])) = tried [] @ [])
     \<and> (\<not> resolves_visible page_malformed 5000 ''h1'' \<longrightarrow>
        fst (for_each (probe_text page_malformed 5000) (''h1'' # [''h2'']) None [])
          = fst (for_each (probe_text page_malformed 5000) [''h2''] None [])
        \<and> tried (snd (for_each (probe_text page_malformed 5000) (''h1'' # [''h2'']) None []))
          = tried [] @ ''h1'' # tried (snd (for_each (probe_text page_malformed 5000) [''h2''] None []))
        \<and> fst (for_each (probe_flag page_malformed 5000) (''h1'' # [''h2'']) False [])
          = fst (for_each (probe_flag page_malformed 5000) [''h2''] False [])
        \<and> tried (snd (for_each (probe_flag page_malformed 5000) (''h1'' # [''h2'']) False []))
          = tried [] @ ''h1'' # tried (snd (for_each (probe_flag page_malformed 5000) [''h2''] False [])))"
    using resolution_never_raises
            [where self = ?self and tr = "[]" and e = TimeoutError and sels = "[]"
               and pg = page_malformed and t = 5000 and c = "''h1''" and rest = "[''h2'']"]
    by (elim conjE) (intro conjI; assumption)
  have h: "\<not> resolves_visible page_malformed T s" for T s
    by (simp add: page_malformed_def resolves_visible_def)
  from part show ?thesis by (simp add: h)
qed

section \<open>Properties of search submission and of the text getter\<close>

lemma search_loop_returns: "\<exists>r. fst (search_loop pg sels cur tr) = Ret r"
  by (induction sels arbitrary: cur tr)
     (auto simp add: page_locator_def is_visible_call_def call_def
        split: prod.splits res.splits option.splits)

lemma search_loop_timeouts:
  "set (visibility_timeouts (snd (search_loop pg sels cur tr)))
     \<subseteq> set (visibility_timeouts tr) \<union> {5000}"
proof (induction sels arbitrary: cur tr)
  case Nil
  show ?case by auto
next
  case (Cons s rest)
  have a: "set (visibility_timeouts (snd (search_loop pg rest c (tr @ [EvLocator s]))))
            \<subseteq> set (visibility_timeouts tr) \<union> {5000}" for c
    using Cons.IH [of c "tr @ [EvLocator s]"] by (simp add: visibility_timeouts_append)
  have b: "set (visibility_timeouts
              (snd (search_loop pg rest c (tr @ [EvLocator s, EvIsVisible (First s) 5000]))))
            \<subseteq> set (visibility_timeouts tr) \<union> {5000}" for c
    using Cons.IH [of c "tr @ [EvLocator s, EvIsVisible (First s) 5000]"]
    by (simp add: visibility_timeouts_append)
  show ?case
    using a b
    by (simp add: page_locator_def is_visible_call_def call_def visibility_timeouts_append
          split: option.splits res.splits)
qed

lemma search_loop_none:
  "(fst (search_loop pg sels cur tr) = Ret None)
     = (cur = None \<and> (\<forall>s \<in> set sels. locator_result pg s \<noteq> None))"
  by (induction sels arbitrary: cur tr)
     (auto simp add: page_locator_def is_visible_call_def call_def
        split: prod.splits res.splits option.splits)

lemma search_loop_navigations:
  "navigations (snd (search_loop pg sels cur tr)) = navigations tr"
  by (induction sels arbitrary: cur tr)
     (auto simp add: page_locator_def is_visible_call_def call_def navigations_append
        split: prod.splits res.splits option.splits)

lemma search_for_city_apply:
  "search_for_city self city tr =
     (case search_loop (page self) search_selectors None tr of
        (Raise e, tr1) \<Rightarrow> (Raise e, tr1)
      | (Ret None, tr1) \<Rightarrow>
          (case goto_result (page self) (ui_base_url (settings self) @ ''/find?q='' @ city) of
             Some e \<Rightarrow>
               (Raise e, tr1 @ [EvGoto (ui_base_url (settings self) @ ''/find?q='' @ city)])
           | None \<Rightarrow>
               (unit_result (wait_for_load_state_result (page self) ''networkidle''),
                tr1 @ [EvGoto (ui_base_url (settings self) @ ''/find?q='' @ city),
                       EvWaitForLoadState ''networkidle'']))
      | (Ret (Some el), tr1) \<Rightarrow>
          (case fill_result (page self) el city of
             Some e \<Rightarrow> (Raise e, tr1 @ [EvFill el city])
           | None \<Rightarrow>
               (case press_result (page self) el ''Enter'' of
                  Some e \<Rightarrow> (Raise e, tr1 @ [EvFill el city, EvPress el ''Enter''])
                | None \<Rightarrow>
                    (unit_result (wait_for_load_state_result (page self) ''networkidle''),
                     tr1 @ [EvFill el city, EvPress el ''Enter'',
                            EvWaitForLoadState ''networkidle'']))))"
  by (simp add: search_for_city_def bind_def fill_def press_def navigate_to_def goto_def
        wait_for_page_load_def wait_for_load_state_def call_def unit_result_def
        split: prod.splits res.splits option.splits)

lemma search_for_city_timeouts:
  "set (visibility_timeouts (snd (search_for_city self city tr)))
     \<subseteq> set (visibility_timeouts tr) \<union> {5000}"
proof -
  obtain r tr1 where b: "search_loop (page self) search_selectors None tr = (r, tr1)"
    by (cases "search_loop (page self) search_selectors None tr")
  from search_loop_timeouts [of "page self" search_selectors None tr] b
  have "set (visibility_timeouts tr1) \<subseteq> set (visibility_timeouts tr) \<union> {5000}" by simp
  then show ?thesis
    by (simp add: search_for_city_apply b visibility_timeouts_append
          split: res.splits option.splits)
qed

lemma search_for_city_navigates_iff:
  "navigations (snd (search_for_city self city tr)) =
     navigations tr @
       (if \<forall>s \<in> set search_selectors. locator_result (page self) s \<noteq> None
        then [ui_base_url (settings self) @ ''/find?q='' @ city] else [])"
proof -
  obtain r tr1 where b: "search_loop (page self) search_selectors None tr = (r, tr1)"
    by (cases "search_loop (page self) search_selectors None tr")
  from search_loop_navigations [of "page self" search_selectors None tr] b
  have n: "navigations tr1 = navigations tr" by simp
  from search_loop_none [of "page self" search_selectors None tr] b
  have r: "(r = Ret None) = (\<forall>s \<in> set search_selectors. locator_result (page self) s \<noteq> None)"
    by simp
  from search_loop_returns [of "page self" search_selectors None tr] b
  obtain v where v: "r = Ret v" by auto
  show ?thesis
    using r n v
    by (cases v) (auto simp add: search_for_city_apply b navigations_append
          split: option.splits)
qed

lemma search_loop_tried:
  "tried (snd (search_loop pg sels cur tr))
     = tried tr @ upto_first (resolves_visible pg 5000) sels"
  by (induction sels arbitrary: cur tr)
     (auto simp add: page_locator_def is_visible_call_def call_def tried_append
        resolves_visible_def split: prod.splits res.splits option.splits)

lemma search_loop_checks:
  "visibility_timeouts tr
     = replicate (length (filter (\<lambda>c. locator_result pg c = None) (tried tr))) 5000 \<Longrightarrow>
   visibility_timeouts (snd (search_loop pg sels cur tr))
     = replicate (length (filter (\<lambda>c. locator_result pg c = None)
                            (tried (snd (search_loop pg sels cur tr))))) 5000"
proof (induction sels arbitrary: cur tr)
  case Nil
  then show ?case by simp
next
  case (Cons s rest)
  have a: "visibility_timeouts (tr @ [EvLocator s])
      = replicate (length (filter (\<lambda>c. locator_result pg c = None)
                             (tried (tr @ [EvLocator s])))) 5000"
    if "locator_result pg s \<noteq> None"
    using that Cons.prems by (simp add: tried_append visibility_timeouts_append)
  have b: "visibility_timeouts (tr @ [EvLocator s, EvIsVisible (First s) 5000])
      = replicate (length (filter (\<lambda>c. locator_result pg c = None)
                             (tried (tr @ [EvLocator s, EvIsVisible (First s) 5000])))) 5000"
    if "locator_result pg s = None"
    using that Cons.prems
    by (simp add: tried_append visibility_timeouts_append replicate_append_same)
  show ?case
    using Cons.IH [OF a] Cons.IH [OF b] b
    by (simp add: page_locator_def is_visible_call_def call_def
          split: option.splits res.splits)
qed

lemma search_for_city_tried:
  "tried (snd (search_for_city self city tr))
     = tried tr @ upto_first (resolves_visible (page self) 5000) search_selectors"
proof -
  obtain r tr1 where b: "search_loop (page self) search_selectors None tr = (r, tr1)"
    by (cases "search_loop (page self) search_selectors None tr")
  from search_loop_tried [of "page self" search_selectors None tr] b
  have "tried tr1 = tried tr @ upto_first (resolves_visible (page self) 5000) search_selectors"
    by simp
  then show ?thesis
    by (simp add: search_for_city_apply b tried_append split: res.splits option.splits)
qed

lemma search_for_city_checks:
  "visibility_timeouts (snd (search_for_city self city []))
     = replicate (length (filter (\<lambda>c. locator_result (page self) c = None)
                            (tried (snd (search_for_city self city []))))) 5000"
proof -
  obtain r tr1 where b: "search_loop (page self) search_selectors None [] = (r, tr1)"
    by (cases "search_loop (page self) search_selectors None []")
  from search_loop_checks [of "[]" "page self" search_selectors None] b
  have "visibility_timeouts tr1
     = replicate (length (filter (\<lambda>c. locator_result (page self) c = None) (tried tr1))) 5000"
    by simp
  then show ?thesis
    by (simp add: search_for_city_apply b tried_append visibility_timeouts_append
          split: res.splits option.splits)
qed

lemma get_error_message_checks:
  "visibility_timeouts (snd (get_error_message self []))
     = replicate (length (filter (\<lambda>c. locator_result (page self) c = None)
                            (tried (snd (get_error_message self []))))) 5000"
proof -
  obtain r tr1 where b: "is_error_displayed self [] = (r, tr1)"
    by (cases "is_error_displayed self []")
  from for_each_flag_checks [of "[]" "page self" 5000 error_selectors False] b
  have t1: "visibility_timeouts tr1
     = replicate (length (filter (\<lambda>c. locator_result (page self) c = None) (tried tr1))) 5000"
    by (simp add: is_error_displayed_def)
  from for_each_text_checks [OF t1, of error_selectors None] t1 show ?thesis
    by (simp add: get_error_message_apply b split: res.splits)
qed

text \<open>
  Claim C6, as stated, fails: the loop of \<^verbatim>\<open>is_weather_info_displayed\<close> passes
  \<^verbatim>\<open>timeout=10000\<close>. On a page where nothing is visible each of its four candidates is
  tested with 10000 ms.
\<close>

theorem uniform_timeout_counterexample:
  "visibility_timeouts
     (snd (is_weather_info_displayed \<lparr>page = page_hidden, settings = default_settings\<rparr> []))
     = [10000, 10000, 10000, 10000]"
  by (simp add: is_weather_info_displayed_def weather_selectors_def for_each_Cons_apply
        for_each_Nil_apply probe_flag_unfold page_hidden_def)

text \<open>
  Claim C6, amended. Every visibility test made by \<^verbatim>\<open>search_for_city\<close>,
  \<^verbatim>\<open>get_temperature\<close>, \<^verbatim>\<open>get_city_name\<close>, \<^verbatim>\<open>get_weather_description\<close>,
  \<^verbatim>\<open>is_error_displayed\<close> and \<^verbatim>\<open>get_error_message\<close> passes 5000 ms, and every
  visibility test made by \<^verbatim>\<open>is_weather_info_displayed\<close> passes 10000 ms. Each method
  makes one such test for every candidate it tries whose locator is made. Each method
  tries candidates of its own list only, and \<^verbatim>\<open>SEARCH_BUTTON\<close>, the search-submit
  selector, is in none of the six lists: six logical elements are resolved, not seven.
\<close>

theorem visibility_timeouts_passed:
  "set (visibility_timeouts (snd (search_for_city self city []))) \<subseteq> {5000}
   \<and> set (visibility_timeouts (snd (get_temperature self []))) \<subseteq> {5000}
   \<and> set (visibility_timeouts (snd (get_city_name self []))) \<subseteq> {5000}
   \<and> set (visibility_timeouts (snd (get_weather_description self []))) \<subseteq> {5000}
   \<and> set (visibility_timeouts (snd (is_error_displayed self []))) \<subseteq> {5000}
   \<and> set (visibility_timeouts (snd (get_error_message self []))) \<subseteq> {5000}
   \<and> set (visibility_timeouts (snd (is_weather_info_displayed self []))) \<subseteq> {10000}
   \<and> visibility_timeouts (snd (search_for_city self city []))
       = replicate (length (filter (\<lambda>c. locator_result (page self) c = None)
                              (tried (snd (search_for_city self city []))))) 5000
   \<and> visibility_timeouts (snd (get_temperature self []))
       = replicate (length (filter (\<lambda>c. locator_result (page self) c = None)
                              (tried (snd (get_temperature self []))))) 5000
   \<and> visibility_timeouts (snd (get_city_name self []))
       = replicate (length (filter (\<lambda>c. locator_result (page self) c = None)
                              (tried (snd (get_city_name self []))))) 5000
   \<and> visibility_timeouts (snd (get_weather_description self []))
       = replicate (length (filter (\<lambda>c. locator_result (page self) c = None)
                              (tried (snd (get_weather_description self []))))) 5000
   \<and> visibility_timeouts (snd (is_error_displayed self []))
       = replicate (length (filter (\<lambda>c. locator_result (page self) c = None)
                              (tried (snd (is_error_displayed self []))))) 5000
   \<and> visibility_timeouts (snd (get_error_message self []))
       = replicate (length (filter (\<lambda>c. locator_result (page self) c = None)
                              (tried (snd (get_error_message self []))))) 5000
   \<and> visibility_timeouts (snd (is_weather_info_displayed self []))
       = replicate (length (filter (\<lambda>c. locator_result (page self) c = None)
                              (tried (snd (is_weather_info_displayed self []))))) 10000
   \<and> set (tried (snd (search_for_city self city []))) \<subseteq> set search_selectors
   \<and> set (tried (snd (get_temperature self []))) \<subseteq> set temperature_selectors
   \<and> set (tried (snd (get_city_name self []))) \<subseteq> set city_selectors
   \<and> set (tried (snd (get_weather_description self []))) \<subseteq> set description_selectors
   \<and> set (tried (snd (is_error_displayed self []))) \<subseteq> set error_selectors
   \<and> set (tried (snd (get_error_message self []))) \<subseteq> set error_selectors
   \<and> set (tried (snd (is_weather_info_displayed self []))) \<subseteq> set weather_selectors
   \<and> SEARCH_BUTTON \<notin> set (search_selectors @ temperature_selectors @ city_selectors
        @ description_selectors @ weather_selectors @ error_selectors)"
proof -
  have getter: "set (visibility_timeouts (snd (for_each (probe_text (page self) 5000) sels None tr)))
      \<subseteq> set (visibility_timeouts tr) \<union> {5000}" for sels tr
    by (rule for_each_timeouts) (rule probe_text_timeouts)
  have check: "set (visibility_timeouts (snd (for_each (probe_flag (page self) t) sels False tr)))
      \<subseteq> set (visibility_timeouts tr) \<union> {t}" for t sels tr
    by (rule for_each_timeouts) (rule probe_flag_timeouts)
  have msg: "set (visibility_timeouts (snd (get_error_message self []))) \<subseteq> {5000}"
  proof -
    obtain r tr1 where b: "is_error_displayed self [] = (r, tr1)"
      by (cases "is_error_displayed self []")
    from check [of 5000 error_selectors "[]"] b
    have t1: "set (visibility_timeouts tr1) \<subseteq> {5000}" by (simp add: is_error_displayed_def)
    with getter [of error_selectors tr1]
    have "set (visibility_timeouts
                (snd (for_each (probe_text (page self) 5000) error_selectors None tr1)))
            \<subseteq> {5000}" by blast
    with t1 show ?thesis
      by (simp add: get_error_message_apply b split: res.splits)
  qed
  have within: "set (visibility_timeouts (snd (search_for_city self city []))) \<subseteq> {5000}
   \<and> set (visibility_timeouts (snd (get_temperature self []))) \<subseteq> {5000}
   \<and> set (visibility_timeouts (snd (get_city_name self []))) \<subseteq> {5000}
   \<and> set (visibility_timeouts (snd (get_weather_description self []))) \<subseteq> {5000}
   \<and> set (visibility_timeouts (snd (is_error_displayed self []))) \<subseteq> {5000}
   \<and> set (visibility_timeouts (snd (get_error_message self []))) \<subseteq> {5000}
   \<and> set (visibility_timeouts (snd (is_weather_info_displayed self []))) \<subseteq> {10000}"
    using getter [of _ "[]"] check [of _ _ "[]"] msg search_for_city_timeouts [of self city "[]"]
    by (simp add: get_temperature_def get_city_name_def get_weather_description_def
          is_weather_info_displayed_def is_error_displayed_def)
  have counts: "visibility_timeouts (snd (get_temperature self []))
       = replicate (length (filter (\<lambda>c. locator_result (page self) c = None)
                              (tried (snd (get_temperature self []))))) 5000
   \<and> visibility_timeouts (snd (get_city_name self []))
       = replicate (length (filter (\<lambda>c. locator_result (page self) c = None)
                              (tried (snd (get_city_name self []))))) 5000
   \<and> visibility_timeouts (snd (get_weather_description self []))
       = replicate (length (filter (\<lambda>c. locator_result (page self) c = None)
                              (tried (snd (get_weather_description self []))))) 5000
   \<and> visibility_timeouts (snd (is_error_displayed self []))
       = replicate (length (filter (\<lambda>c. locator_result (page self) c = None)
                              (tried (snd (is_error_displayed self []))))) 5000
   \<and> visibility_timeouts (snd (is_weather_info_displayed self []))
       = replicate (length (filter (\<lambda>c. locator_result (page self) c = None)
                              (tried (snd (is_weather_info_displayed self []))))) 10000"
    unfolding get_temperature_def get_city_name_def get_weather_description_def
      is_weather_info_displayed_def is_error_displayed_def
    using for_each_text_checks [of "[]" "page self" 5000 _ None]
      for_each_flag_checks [of "[]" "page self" _ _ False]
    by simp
  have lists: "set (tried (snd (search_for_city self city []))) \<subseteq> set search_selectors
   \<and> set (tried (snd (get_temperature self []))) \<subseteq> set temperature_selectors
   \<and> set (tried (snd (get_city_name self []))) \<subseteq> set city_selectors
   \<and> set (tried (snd (get_weather_description self []))) \<subseteq> set description_selectors
   \<and> set (tried (snd (is_error_displayed self []))) \<subseteq> set error_selectors
   \<and> set (tried (snd (get_error_message self []))) \<subseteq> set error_selectors
   \<and> set (tried (snd (is_weather_info_displayed self []))) \<subseteq> set weather_selectors"
    using for_each_text_exact [of "page self" 5000 _ "[]"]
      for_each_flag_exact [of "page self" _ _ "[]"]
      get_error_message_exact [of self "[]"] search_for_city_tried [of self city "[]"]
      set_upto_first [of "readable (page self) 5000"]
      set_upto_first [of "resolves_visible (page self) 5000"]
      set_upto_first [of "resolves_visible (page self) 10000"]
    by (simp add: get_temperature_def get_city_name_def get_weather_description_def
          is_weather_info_displayed_def is_error_displayed_def)
  have unused: "SEARCH_BUTTON \<notin> set (search_selectors @ temperature_selectors @ city_selectors
        @ description_selectors @ weather_selectors @ error_selectors)"
    by (simp add: SEARCH_BUTTON_def search_selectors_def temperature_selectors_def
          city_selectors_def description_selectors_def weather_selectors_def
          error_selectors_def SEARCH_INPUT_def TEMPERATURE_def CITY_NAME_def
          WEATHER_DESCRIPTION_def WEATHER_INFO_def ERROR_MESSAGE_def)
  from within counts search_for_city_checks [of self city] get_error_message_checks [of self]
    lists unused
  show ?thesis by (intro conjI) (elim conjE; assumption)+
qed

theorem visibility_timeouts_passed_witness:
  "visibility_timeouts
     (snd (search_for_city \<lparr>page = page_hidden, settings = default_settings\<rparr> ''London'' []))
     = [5000, 5000, 5000, 5000]
   \<and> visibility_timeouts
       (snd (get_temperature \<lparr>page = page_hidden, settings = default_settings\<rparr> []))
     = [5000, 5000, 5000, 5000]
   \<and> visibility_timeouts
       (snd (get_city_name \<lparr>page = page_hidden, settings = default_settings\<rparr> []))
     = [5000, 5000, 5000, 5000, 5000]
   \<and> visibility_timeouts
       (snd (is_weather_info_displayed \<lparr>page = page_hidden, settings = default_settings\<rparr> []))
     = [10000, 10000, 10000, 10000]
   \<and> SEARCH_BUTTON
       \<notin> set (tried (snd (search_for_city \<lparr>page = page_hidden, settings = default_settings\<rparr>
                              ''London'' [])))"
proof -
  let ?self = "\<lparr>page = page_hidden, settings = default_settings\<rparr>"
  have t1: "tried (snd (search_for_city ?self ''London'' [])) = search_selectors"
    using search_for_city_tried [of ?self "''London''" "[]"]
      upto_first_find_None [of "resolves_visible page_hidden 5000" search_selectors]
    by (simp add: find_None_iff_all page_hidden_def resolves_visible_def)
  have t2: "tried (snd (get_temperature ?self [])) = temperature_selectors"
    and t3: "tried (snd (get_city_name ?self [])) = city_selectors"
    and t4: "tried (snd (is_weather_info_displayed ?self [])) = weather_selectors"
    using for_each_text_absent [of _ page_hidden 5000 "[]"]
      for_each_flag_absent [of _ page_hidden 10000 "[]"]
    by (simp_all add: get_temperature_def get_city_name_def is_weather_info_displayed_def
          page_hidden_def resolves_visible_def)
  have made: "locator_result (page ?self) c = None" for c
    by (simp add: page_hidden_def)
  from visibility_timeouts_passed [of ?self "''London''"] t1 t2 t3 t4 made
  show ?thesis
    by (simp add: search_selectors_def temperature_selectors_def city_selectors_def
          weather_selectors_def numeral_eq_Suc)
qed

text \<open>
  Claim C3 at a failing input: a page on which no search-input candidate is visible and
  no input can be filled. The locator of every candidate is made, so \<^verbatim>\<open>search_input\<close>
  ends as the locator of the last candidate; the method tries to fill it and raises, and
  no navigation to the search URL takes place.
\<close>

theorem search_for_city_no_fallback:
  "find (resolves_visible page_hidden 5000) search_selectors = None
   \<and> search_for_city \<lparr>page = page_hidden, settings = default_settings\<rparr> ''London'' []
     = (Raise TimeoutError,
        [EvLocator SEARCH_INPUT, EvIsVisible (First SEARCH_INPUT) 5000,
         EvLocator ''input[name='q']'', EvIsVisible (First ''input[name='q']'') 5000,
         EvLocator ''input[id*='search']'', EvIsVisible (First ''input[id*='search']'') 5000,
         EvLocator ''input[placeholder*='Search']'',
         EvIsVisible (First ''input[placeholder*='Search']'') 5000,
         EvFill (First ''input[placeholder*='Search']'') ''London''])"
  by (simp add: search_for_city_apply search_selectors_def page_locator_def
        is_visible_call_def call_def page_hidden_def resolves_visible_def)

text \<open>
  Claim C9, as stated, fails: \<^verbatim>\<open>get_text\<close> does not return for every locator. On a page
  where the text of the located element cannot be read (no element matches and the read
  times out) the call raises and returns nothing.
\<close>

theorem get_text_counterexample:
  "get_text \<lparr>page = page_hidden, settings = default_settings\<rparr> (ArgStr ''h1'') []
     = (Raise TimeoutError, [EvLocator ''h1'', EvTextContent (Loc ''h1'')])"
  by (simp add: get_text_def element_of_def bind_def page_locator_def text_content_def
        call_def page_hidden_def)

text \<open>
  Claim C9, amended. Whenever \<^verbatim>\<open>get_text\<close> returns, it returns a string and never
  \<^verbatim>\<open>None\<close>: when the element is obtained and its text content is read, the result is
  that text, and the empty string when the text content is \<^verbatim>\<open>None\<close>. An exception of
  making the locator or of reading the text leaves \<^verbatim>\<open>get_text\<close> unchanged.
\<close>

theorem get_text_returns_string:
  "(fst (get_text self a tr) = Ret v \<longrightarrow> (\<exists>s. v = PStr s))
   \<and> (fst (element_of self a tr) = Ret el \<and> text_content_result (page self) el = Ret t \<longrightarrow>
        fst (get_text self a tr) = Ret (PStr (case t of None \<Rightarrow> [] | Some s \<Rightarrow> s)))
   \<and> (fst (element_of self a tr) = Ret el \<and> text_content_result (page self) el = Raise e \<longrightarrow>
        fst (get_text self a tr) = Raise e)
   \<and> (fst (element_of self a tr) = Raise e \<longrightarrow> fst (get_text self a tr) = Raise e)"
  by (cases a)
     (auto simp add: get_text_def element_of_def bind_def ret_def page_locator_def
        text_content_def call_def py_or_def py_of_text_def
        split: option.splits res.splits prod.splits)

theorem get_text_returns_string_witness:
  "fst (get_text \<lparr>page = page_second_candidate, settings = default_settings\<rparr>
          (ArgStr ''h1'') []) = Ret (PStr ''21'')
   \<and> fst (get_text
            \<lparr>page = page_second_candidate\<lparr>text_content_result := (\<lambda>l. Ret None)\<rparr>,
             settings = default_settings\<rparr>
            (ArgLocator (First ''h1'')) []) = Ret (PStr [])"
  using get_text_returns_string
          [of "\<lparr>page = page_second_candidate, settings = default_settings\<rparr>"
              "ArgStr ''h1''" "[]" "PStr ''21''" "Loc ''h1''" "Some ''21''"]
        get_text_returns_string
          [of "\<lparr>page = page_second_candidate\<lparr>text_content_result := (\<lambda>l. Ret None)\<rparr>,
                settings = default_settings\<rparr>"
              "ArgLocator (First ''h1'')" "[]" "PStr []" "First ''h1''" None]
  by (simp add: element_of_def page_locator_def call_def ret_def page_second_candidate_def)

section \<open>Properties of the API client\<close>










section \<open>Properties of the settings singleton\<close>

lemma str_field_raises: "str_field e n d = Raise x \<Longrightarrow> x = ValidationError"
  by (auto simp add: str_field_def split: option.splits cfgval.splits)

lemma bool_field_raises: "bool_field e n d = Raise x \<Longrightarrow> x = ValidationError"
  by (auto simp add: bool_field_def split: option.splits cfgval.splits)

lemma int_field_raises: "int_field e n d = Raise x \<Longrightarrow> x = ValidationError"
  by (auto simp add: int_field_def split: option.splits cfgval.splits)

lemma bind_res_raises:
  assumes "bind_res m f = Raise x"
    and "\<And>y. m = Raise y \<Longrightarrow> y = ValidationError"
    and "\<And>v. f v = Raise x \<Longrightarrow> x = ValidationError"
  shows "x = ValidationError"
  using assms by (cases m) (auto simp add: bind_res_def)

lemma Settings_init_raises:
  assumes "Settings_init e = Raise x"
  shows "x = ValidationError"
proof (cases "dotenv_extras e \<noteq> []")
  case True
  with assms show ?thesis by (simp add: Settings_init_def)
next
  case False
  with assms show ?thesis
    unfolding Settings_init_def
    by (simp only: if_False)
       ((erule bind_res_raises, (erule str_field_raises bool_field_raises int_field_raises))+,
        simp)
qed

lemma Settings_init_no_key:
  assumes "lookup_source e ''openweather_api_key'' = None"
  shows "Settings_init e = Raise ValidationError"
proof -
  have k: "str_field e ''openweather_api_key'' None = Raise ValidationError"
    using assms by (simp add: str_field_def)
  have "\<exists>x. Settings_init e = Raise x"
    unfolding Settings_init_def using k
    by (auto simp add: bind_res_def split: res.splits)
  then show ?thesis using Settings_init_raises by blast
qed

lemma Settings_init_with_key: "Settings_init env_with_key = Ret default_settings"
  by (simp add: Settings_init_def bind_res_def str_field_def bool_field_def int_field_def
        lookup_source_def dotenv_extras_def env_with_key_def default_settings_def)

lemma Settings_init_empty_key:
  "Settings_init env_empty_key = Ret (default_settings\<lparr>openweather_api_key := []\<rparr>)"
  by (simp add: Settings_init_def bind_res_def str_field_def bool_field_def int_field_def
        lookup_source_def dotenv_extras_def env_empty_key_def default_settings_def)

lemma not_constructs: "\<not> constructs e \<Longrightarrow> Settings_init e = Raise ValidationError"
  using Settings_init_raises [of e] by (cases "Settings_init e") (simp_all add: constructs_def)

lemma not_constructs_env_no_key: "\<not> constructs env_no_key"
  using Settings_init_no_key [of env_no_key]
  by (simp add: constructs_def lookup_source_def env_no_key_def)

lemma get_settings_cached: "g_settings st = Some ob \<Longrightarrow> get_settings e st = (Ret ob, st)"
  by (simp add: get_settings_def)

lemma get_settings_calls_cached:
  "g_settings st = Some ob \<Longrightarrow>
     get_settings_calls es st = (replicate (length es) (Ret ob), st)"
  by (induction es) (simp_all add: get_settings_cached)

lemma get_settings_calls_failing:
  "\<forall>e\<in>set es. \<not> constructs e \<Longrightarrow> g_settings st = None \<Longrightarrow>
     get_settings_calls es st = (replicate (length es) (Raise ValidationError), st)"
  by (induction es) (simp_all add: get_settings_def not_constructs)

lemma get_settings_calls_append:
  "get_settings_calls (xs @ ys) st =
     (case get_settings_calls xs st of
        (rs, st1) \<Rightarrow> (case get_settings_calls ys st1 of (rs2, st2) \<Rightarrow> (rs @ rs2, st2)))"
  by (induction xs arbitrary: st) (auto split: prod.splits)

text \<open>
  Claim C8, as stated, fails for the sequences whose first call raises: \<^verbatim>\<open>Settings()\<close> is
  then attempted again by the next call, and the object is constructed by a later call,
  not by the first. Here the first call finds no key, the second finds one.
\<close>

theorem get_settings_counterexample:
  "get_settings_calls [env_no_key, env_with_key, env_with_key] fresh_module
     = ([Raise ValidationError, Ret (0, default_settings), Ret (0, default_settings)],
        \<lparr>g_settings = Some (0, default_settings), constructed = 1\<rparr>)"
  using not_constructs [OF not_constructs_env_no_key]
  by (simp add: get_settings_def fresh_module_def Settings_init_with_key)

text \<open>
  Claim C8, amended. In a fresh process nothing is constructed. In every sequence of
  calls of \<^verbatim>\<open>get_settings\<close>, each made with the sources as they are at that moment: the
  calls before the first one on which \<^verbatim>\<open>Settings()\<close> succeeds each raise the validation
  error and leave the module as it was; the first call on which \<^verbatim>\<open>Settings()\<close>
  succeeds, with the value \<open>s\<close>, constructs the one object, which holds \<open>s\<close>; that call and
  every later call, whatever the sources have become, return this same object, and it
  stays the only object constructed. When \<^verbatim>\<open>Settings()\<close> succeeds on no call, every call
  raises and nothing is constructed.
\<close>

theorem get_settings_singleton:
  "g_settings fresh_module = None \<and> constructed fresh_module = 0
   \<and> (Settings_init e = Ret s \<and> (\<forall>e'\<in>set pre. \<not> constructs e') \<longrightarrow>
        get_settings_calls (pre @ e # post) fresh_module
          = (replicate (length pre) (Raise ValidationError)
               @ replicate (Suc (length post)) (Ret (0, s)),
             \<lparr>g_settings = Some (0, s), constructed = 1\<rparr>))
   \<and> ((\<forall>e'\<in>set es. \<not> constructs e') \<longrightarrow>
        get_settings_calls es fresh_module
          = (replicate (length es) (Raise ValidationError), fresh_module))"
proof -
  have fresh: "g_settings fresh_module = None" "constructed fresh_module = 0"
    by (simp_all add: fresh_module_def)
  have later: "get_settings_calls (pre @ e # post) fresh_module
          = (replicate (length pre) (Raise ValidationError)
               @ replicate (Suc (length post)) (Ret (0, s)),
             \<lparr>g_settings = Some (0, s), constructed = 1\<rparr>)"
    if s: "Settings_init e = Ret s" and pre: "\<forall>e'\<in>set pre. \<not> constructs e'"
  proof -
    have a: "get_settings_calls pre fresh_module
        = (replicate (length pre) (Raise ValidationError), fresh_module)"
      using pre fresh(1) by (rule get_settings_calls_failing)
    have b: "get_settings e fresh_module
        = (Ret (0, s), \<lparr>g_settings = Some (0, s), constructed = 1\<rparr>)"
      using s by (simp add: get_settings_def fresh_module_def)
    have c: "get_settings_calls post \<lparr>g_settings = Some (0, s), constructed = 1\<rparr>
        = (replicate (length post) (Ret (0, s)),
           \<lparr>g_settings = Some (0, s), constructed = 1\<rparr>)"
      by (rule get_settings_calls_cached) simp
    from a b c show ?thesis by (simp add: get_settings_calls_append)
  qed
  have never: "get_settings_calls es fresh_module
          = (replicate (length es) (Raise ValidationError), fresh_module)"
    if "\<forall>e'\<in>set es. \<not> constructs e'"
    using that fresh(1) by (rule get_settings_calls_failing)
  from fresh later never show ?thesis by blast
qed

theorem get_settings_singleton_witness:
  "get_settings_calls [env_with_key, env_no_key, env_empty_key] fresh_module
     = ([Ret (0, default_settings), Ret (0, default_settings), Ret (0, default_settings)],
        \<lparr>g_settings = Some (0, default_settings), constructed = 1\<rparr>)
   \<and> get_settings_calls [env_no_key, env_no_key, env_empty_key, env_with_key] fresh_module
     = ([Raise ValidationError, Raise ValidationError,
         Ret (0, default_settings\<lparr>openweather_api_key := []\<rparr>),
         Ret (0, default_settings\<lparr>openweather_api_key := []\<rparr>)],
        \<lparr>g_settings = Some (0, default_settings\<lparr>openweather_api_key := []\<rparr>),
         constructed = 1\<rparr>)
   \<and> get_settings_calls [env_no_key, env_no_key] fresh_module
     = ([Raise ValidationError, Raise ValidationError], fresh_module)"
  using get_settings_singleton
          [where e = env_with_key and s = default_settings and pre = "[]"
             and post = "[env_no_key, env_empty_key]" and es = "[env_no_key, env_no_key]"]
        get_settings_singleton
          [where e = env_empty_key and s = "default_settings\<lparr>openweather_api_key := []\<rparr>"
             and pre = "[env_no_key, env_no_key]" and post = "[env_with_key]" and es = "[]"]
        Settings_init_with_key Settings_init_empty_key not_constructs_env_no_key
  by (simp add: numeral_eq_Suc)

text \<open>
  Claim C7 at a failing input: an environment that provides no key at all. The key is a
  required field, so \<^verbatim>\<open>get_settings()\<close> raises a validation error on the first line of
  the test, before the guard: the test ends in an error and is not skipped. With a key
  that is present and empty the guard is reached and the test is skipped.
\<close>

theorem missing_key_errors_before_skip:
  "test_get_weather_valid_city env_no_key fresh_module
     = (Errored ValidationError, fresh_module)
   \<and> fst (test_get_weather_valid_city env_empty_key fresh_module)
     = Skipped ''OpenWeatherMap API key not provided''"
  using Settings_init_no_key [of env_no_key]
  by (simp add: test_get_weather_valid_city_def get_settings_def fresh_module_def
        Settings_init_empty_key env_no_key_def lookup_source_def)

end
